theory Spec2Isabelle
  imports Complex_Main "HOL-Library.AList" "HOL-Library.Word"
begin

chapter \<open>SAAM: a shallow embedding of the PERA pipeline and its memory substrate\<close>

section \<open>Python values shared by the modules\<close>

text \<open>
  A Python exception is a value: the name of its class and its message (what
  \<^verbatim>\<open>type(e).__name__\<close> and \<^verbatim>\<open>str(e)\<close> give).  A function that may raise returns
  \<open>py_error + 'a\<close>, with \<open>Inl\<close> for the exception that leaves it.
\<close>

datatype py_error = PyError (err_tipo: string) (err_mensaje: string)

text \<open>
  A method that a class calls on \<^verbatim>\<open>self\<close> and that neither the class nor a base class
  defines: the attribute lookup raises \<^verbatim>\<open>AttributeError\<close>, before any argument is passed.
\<close>

definition atributo_ausente :: "string \<Rightarrow> string \<Rightarrow> py_error" where
  "atributo_ausente clase nombre =
     PyError ''AttributeError'' (clase @ '' object has no attribute '' @ nombre)"

text \<open>
  A \<^verbatim>\<open>dict\<close> whose iteration order matters is an association list in insertion order
  with one entry per key.  \<^verbatim>\<open>k in d\<close>, \<^verbatim>\<open>d[k] = v\<close> and \<^verbatim>\<open>del d[k]\<close> are the three
  operations the working memory uses; \<^verbatim>\<open>del\<close> raises \<^verbatim>\<open>KeyError\<close> on a missing key.
\<close>

definition claves :: "('k \<times> 'v) list \<Rightarrow> 'k set" where
  "claves d = set (map fst d)"

definition dict_in :: "'k \<Rightarrow> ('k \<times> 'v) list \<Rightarrow> bool" where
  "dict_in k d = (k \<in> claves d)"

definition dict_set :: "'k \<Rightarrow> 'v \<Rightarrow> ('k \<times> 'v) list \<Rightarrow> ('k \<times> 'v) list" where
  "dict_set k v d = AList.update k v d"

definition dict_del :: "string \<Rightarrow> (string \<times> 'v) list \<Rightarrow> py_error + (string \<times> 'v) list" where
  "dict_del k d = (if dict_in k d then Inr (AList.delete k d) else Inl (PyError ''KeyError'' k))"

section \<open>Python floats\<close>

text \<open>
  A Python \<^verbatim>\<open>float\<close> is an IEEE 754 double.  It is carried as the real number it denotes,
  and the result of an arithmetic operation on floats is the exact result rounded to the
  nearest double, ties to even: \<open>redondear\<close>.  \<open>redondeo_par\<close> rounds to the nearest integer, ties to
  the even one.  \<open>cuanto x\<close> is the spacing of the doubles around \<open>x > 0\<close>: \<open>2 ^ (e - 52)\<close>
  for \<open>2 ^ e \<le> x < 2 ^ (e + 1)\<close>, and \<open>2 ^ (-1074)\<close> below the smallest normal number
  \<open>2 ^ (-1022)\<close>.  Numbers beyond the largest double (overflow to infinity) are outside
  the model.
\<close>

definition redondeo_par :: "real \<Rightarrow> int" where
  "redondeo_par y =
     (let f = \<lfloor>y\<rfloor>; r = y - of_int f in
      if r < 1 / 2 then f else if r > 1 / 2 then f + 1 else if even f then f else f + 1)"

fun cuanto_abajo :: "nat \<Rightarrow> real \<Rightarrow> real \<Rightarrow> real" where
  "cuanto_abajo n p x =
     (if n = 0 \<or> p \<le> x then p / 2 ^ 52 else cuanto_abajo (n - 1) (p / 2) x)"

fun cuanto_arriba :: "nat \<Rightarrow> real \<Rightarrow> real \<Rightarrow> real" where
  "cuanto_arriba n p x =
     (if n = 0 \<or> x < 2 * p then p / 2 ^ 52 else cuanto_arriba (n - 1) (2 * p) x)"

declare cuanto_abajo.simps [simp del] cuanto_arriba.simps [simp del]

definition cuanto :: "real \<Rightarrow> real" where
  "cuanto x = (if x < 1 then cuanto_abajo 1022 1 x else cuanto_arriba 1023 1 x)"

definition redondear :: "real \<Rightarrow> real" where
  "redondear x =
     (if x = 0 then 0
      else sgn x * (of_int (redondeo_par (\<bar>x\<bar> / cuanto \<bar>x\<bar>)) * cuanto \<bar>x\<bar>))"

section \<open>Working memory: \<^verbatim>\<open>src/memoria/trabajo.py\<close>\<close>

text \<open>
  \<^verbatim>\<open>MemoriaTrabajo\<close> holds three dictionaries and the timeout.  Every operation runs
  under the instance's re-entrant lock, so a run of the object is a sequence of whole
  operations.  \<^verbatim>\<open>time.time()\<close> is the argument \<open>ahora\<close> of the operation that reads the
  clock.  Clock readings are floats; the only arithmetic on them is the sweep's test
  \<^verbatim>\<open>ahora - timestamp > self.timeout\<close>, whose difference is a float subtraction
  (rounded to the nearest double) and whose comparison with the timeout, an \<^verbatim>\<open>int\<close> or a
  float, is exact.
  \<^verbatim>\<open>threading.Timer(expiration, lambda: self.eliminar(clave))\<close> is recorded in
  \<open>mt_temporizadores\<close>; when it fires it is a call of \<open>eliminar\<close>.
\<close>

record 'v memoria_trabajo =
  mt_almacen :: "(string \<times> 'v) list"
  mt_timestamp_acceso :: "(string \<times> real) list"
  mt_timestamp_creacion :: "(string \<times> real) list"
  mt_timeout :: real
  mt_temporizadores :: "(nat \<times> string) list"

definition memoria_nueva :: "real \<Rightarrow> 'v memoria_trabajo" where
  "memoria_nueva t =
     \<lparr>mt_almacen = [], mt_timestamp_acceso = [], mt_timestamp_creacion = [],
      mt_timeout = t, mt_temporizadores = []\<rparr>"

text \<open>\<^verbatim>\<open>for clave in claves_a_eliminar: del ...[clave]\<close>, three deletions per key.\<close>

fun eliminar_claves :: "string list \<Rightarrow> 'v memoria_trabajo \<Rightarrow> py_error + 'v memoria_trabajo" where
  "eliminar_claves [] s = Inr s"
| "eliminar_claves (k # ks) s =
     (case dict_del k (mt_almacen s) of
        Inl e \<Rightarrow> Inl e
      | Inr a \<Rightarrow>
         (case dict_del k (mt_timestamp_acceso s) of
            Inl e \<Rightarrow> Inl e
          | Inr b \<Rightarrow>
             (case dict_del k (mt_timestamp_creacion s) of
                Inl e \<Rightarrow> Inl e
              | Inr c \<Rightarrow>
                 eliminar_claves ks
                   (s\<lparr>mt_almacen := a, mt_timestamp_acceso := b, mt_timestamp_creacion := c\<rparr>))))"

definition claves_a_eliminar :: "real \<Rightarrow> 'v memoria_trabajo \<Rightarrow> string list" where
  "claves_a_eliminar ahora s =
     map fst (filter (\<lambda>(clave, timestamp). redondear (ahora - timestamp) > mt_timeout s)
                (mt_timestamp_acceso s))"

definition limpiar_expirados :: "real \<Rightarrow> 'v memoria_trabajo \<Rightarrow> py_error + 'v memoria_trabajo" where
  "limpiar_expirados ahora s = eliminar_claves (claves_a_eliminar ahora s) s"

text \<open>\<^verbatim>\<open>if expiration:\<close> is false for \<^verbatim>\<open>None\<close> and for \<^verbatim>\<open>0\<close>.\<close>

definition guardar ::
  "string \<Rightarrow> 'v \<Rightarrow> nat option \<Rightarrow> real \<Rightarrow> 'v memoria_trabajo \<Rightarrow> 'v memoria_trabajo" where
  "guardar clave valor expiration timestamp_actual s =
     (let s1 = s\<lparr>mt_almacen := dict_set clave valor (mt_almacen s),
                 mt_timestamp_acceso := dict_set clave timestamp_actual (mt_timestamp_acceso s),
                 mt_timestamp_creacion := dict_set clave timestamp_actual (mt_timestamp_creacion s)\<rparr>
      in case expiration of
           None \<Rightarrow> s1
         | Some e \<Rightarrow>
             if e = 0 then s1
             else s1\<lparr>mt_temporizadores := mt_temporizadores s1 @ [(e, clave)]\<rparr>)"

definition obtener ::
  "string \<Rightarrow> 'v \<Rightarrow> real \<Rightarrow> 'v memoria_trabajo \<Rightarrow> 'v \<times> 'v memoria_trabajo" where
  "obtener clave dflt ahora s =
     (case map_of (mt_almacen s) clave of
        Some valor \<Rightarrow>
          (valor, s\<lparr>mt_timestamp_acceso := dict_set clave ahora (mt_timestamp_acceso s)\<rparr>)
      | None \<Rightarrow> (dflt, s))"

definition eliminar :: "string \<Rightarrow> 'v memoria_trabajo \<Rightarrow> py_error + (bool \<times> 'v memoria_trabajo)" where
  "eliminar clave s =
     (if dict_in clave (mt_almacen s) then
        (case eliminar_claves [clave] s of Inl e \<Rightarrow> Inl e | Inr s' \<Rightarrow> Inr (True, s'))
      else Inr (False, s))"

definition limpiar_todo :: "'v memoria_trabajo \<Rightarrow> 'v memoria_trabajo" where
  "limpiar_todo s = s\<lparr>mt_almacen := [], mt_timestamp_acceso := [], mt_timestamp_creacion := []\<rparr>"

text \<open>
  The calls a client, a timer or the sweeper thread can make, each with the clock
  reading it takes, and a run of a list of them (an exception ends the run).
\<close>

datatype 'v operacion =
    Guardar string 'v "nat option" real
  | Obtener string 'v real
  | Eliminar string
  | LimpiarTodo
  | LimpiarExpirados real

fun aplicar :: "'v operacion \<Rightarrow> 'v memoria_trabajo \<Rightarrow> py_error + 'v memoria_trabajo" where
  "aplicar (Guardar k v e t) s = Inr (guardar k v e t s)"
| "aplicar (Obtener k d t) s = Inr (snd (obtener k d t s))"
| "aplicar (Eliminar k) s = (case eliminar k s of Inl e \<Rightarrow> Inl e | Inr r \<Rightarrow> Inr (snd r))"
| "aplicar LimpiarTodo s = Inr (limpiar_todo s)"
| "aplicar (LimpiarExpirados t) s = limpiar_expirados t s"

fun ejecutar_ops :: "'v operacion list \<Rightarrow> 'v memoria_trabajo \<Rightarrow> py_error + 'v memoria_trabajo" where
  "ejecutar_ops [] s = Inr s"
| "ejecutar_ops (x # xs) s =
     (case aplicar x s of Inl e \<Rightarrow> Inl e | Inr s' \<Rightarrow> ejecutar_ops xs s')"

text \<open>The three dictionaries are well formed and agree on their keys.\<close>

definition mt_coherente :: "'v memoria_trabajo \<Rightarrow> bool" where
  "mt_coherente s =
     (distinct (map fst (mt_almacen s)) \<and> distinct (map fst (mt_timestamp_acceso s)) \<and>
      distinct (map fst (mt_timestamp_creacion s)) \<and>
      claves (mt_almacen s) = claves (mt_timestamp_acceso s) \<and>
      claves (mt_almacen s) = claves (mt_timestamp_creacion s))"


section \<open>Tasks and plans\<close>

text \<open>
  A task and a plan are Python dictionaries.  The records below hold the keys the
  modules read; a field of type \<open>option\<close> is \<open>None\<close> when the key is absent.
  \<open>t_dependencias\<close> and \<open>t_critica\<close> are only read as \<^verbatim>\<open>tarea.get('dependencias', [])\<close>
  and \<^verbatim>\<open>tarea.get('critica', False)\<close>, so an absent key is the default.  Of the
  parameters only the keys matter (\<open>t_parametros\<close>).
\<close>

record tarea =
  t_id :: "string option"
  t_tipo :: "string option"
  t_herramienta :: "string option"
  t_parametros :: "string list option"
  t_dependencias :: "string list"
  t_critica :: bool
  t_max_reintentos :: "nat option"

record plan =
  p_tareas :: "tarea list option"

text \<open>\<^verbatim>\<open>plan.get('tareas', [])\<close>\<close>

definition tareas_de :: "plan \<Rightarrow> tarea list" where
  "tareas_de p = (case p_tareas p of None \<Rightarrow> [] | Some ts \<Rightarrow> ts)"

section \<open>Plan validation and optimisation: \<^verbatim>\<open>src/sistema/mcp_validacion.py\<close>\<close>

definition validar_minimo_tareas :: "plan \<Rightarrow> bool \<times> string" where
  "validar_minimo_tareas p =
     (if length (tareas_de p) = 0 then (False, ''El plan no contiene tareas'') else (True, []))"

text \<open>
  \<open>_validar_dependencias_ciclicas\<close> builds a \<^verbatim>\<open>networkx.DiGraph\<close>: for every task with
  a non-empty id, the node of the id and one edge \<^verbatim>\<open>(dep, tarea_id)\<close> per dependency
  (\<^verbatim>\<open>add_edge\<close> creates a node for \<open>dep\<close> when there is none).  \<open>aristas\<close> is the edge
  list.  \<^verbatim>\<open>list(nx.simple_cycles(grafo))\<close> is non-empty exactly when some node reaches
  itself along one or more edges: \<open>hay_ciclos\<close>.  The text the messages interpolate
  (the cycles, the tool names) is left out of the message.
\<close>

definition aristas_tarea :: "tarea \<Rightarrow> (string \<times> string) list" where
  "aristas_tarea t =
     (case t_id t of
        None \<Rightarrow> []
      | Some tarea_id \<Rightarrow>
          if tarea_id \<noteq> [] then map (\<lambda>dep. (dep, tarea_id)) (t_dependencias t) else [])"

definition aristas :: "plan \<Rightarrow> (string \<times> string) list" where
  "aristas p = concat (map aristas_tarea (tareas_de p))"

definition hay_ciclos :: "(string \<times> string) list \<Rightarrow> bool" where
  "hay_ciclos es = (\<exists>n \<in> set (map fst es). (n, n) \<in> (set es)\<^sup>+)"

definition validar_dependencias_ciclicas :: "plan \<Rightarrow> bool \<times> string" where
  "validar_dependencias_ciclicas p =
     (if hay_ciclos (aristas p) then (False, ''Se detectaron ciclos en las dependencias'')
      else (True, []))"

definition herramientas_disponibles :: "string list" where
  "herramientas_disponibles = [''busqueda_web'', ''generacion_texto'', ''api_rest'']"

definition herramientas_plan :: "plan \<Rightarrow> string list" where
  "herramientas_plan p =
     concat (map (\<lambda>t. case t_herramienta t of
                         None \<Rightarrow> []
                       | Some herramienta \<Rightarrow> if herramienta \<noteq> [] then [herramienta] else [])
               (tareas_de p))"

definition validar_recursos_disponibles :: "plan \<Rightarrow> bool \<times> string" where
  "validar_recursos_disponibles p =
     (if filter (\<lambda>h. h \<notin> set herramientas_disponibles) (herramientas_plan p) \<noteq> []
      then (False, ''Herramientas no disponibles'') else (True, []))"

text \<open>
  \<open>_cargar_reglas_validacion\<close> and the loop of \<open>validar_plan\<close> over the rules.  No rule
  raises on a plan of this shape, so the \<^verbatim>\<open>except\<close> branch of the loop is never taken.
\<close>

definition reglas_validacion :: "(string \<times> (plan \<Rightarrow> bool \<times> string)) list" where
  "reglas_validacion =
     [(''tareas_minimo'', validar_minimo_tareas),
      (''dependencias_ciclicas'', validar_dependencias_ciclicas),
      (''recursos_disponibles'', validar_recursos_disponibles)]"

fun aplicar_reglas :: "(string \<times> (plan \<Rightarrow> bool \<times> string)) list \<Rightarrow> plan \<Rightarrow> string list" where
  "aplicar_reglas [] p = []"
| "aplicar_reglas ((nombre, funcion) # reglas) p =
     (case funcion p of
        (valido, mensaje) \<Rightarrow>
          (if \<not> valido then [nombre @ '': '' @ mensaje] else []) @ aplicar_reglas reglas p)"

definition validar_plan :: "plan \<Rightarrow> bool \<times> string list" where
  "validar_plan p = (let errores = aplicar_reglas reglas_validacion p in (length errores = 0, errores))"

text \<open>
  \<open>_optimizar_secuencia\<close>: \<^verbatim>\<open>sorted(tareas, key=lambda x: len(x.get('dependencias', [])))\<close>.
  Python's \<^verbatim>\<open>sorted\<close> is stable, as \<open>sort_key\<close> is.  \<^verbatim>\<open>plan['tareas']\<close> raises
  \<^verbatim>\<open>KeyError\<close> when the key is absent.
\<close>

definition optimizar_secuencia :: "plan \<Rightarrow> py_error + plan" where
  "optimizar_secuencia p =
     (case p_tareas p of
        None \<Rightarrow> Inl (PyError ''KeyError'' ''tareas'')
      | Some tareas \<Rightarrow>
          Inr (p\<lparr>p_tareas := Some (sort_key (\<lambda>x. length (t_dependencias x)) tareas)\<rparr>))"

definition optimizar_recursos :: "plan \<Rightarrow> plan" where
  "optimizar_recursos p = p"

definition optimizar_parametros :: "plan \<Rightarrow> plan" where
  "optimizar_parametros p = p"

definition optimizar_plan :: "plan \<Rightarrow> py_error + plan" where
  "optimizar_plan p =
     (case optimizar_secuencia p of
        Inl e \<Rightarrow> Inl e
      | Inr p1 \<Rightarrow> Inr (optimizar_parametros (optimizar_recursos p1)))"

text \<open>
  The ids of a plan's tasks, and the plan with every dependency dropped that is not the
  id of one of its tasks.
\<close>

definition ids_plan :: "plan \<Rightarrow> string list" where
  "ids_plan p = concat (map (\<lambda>t. case t_id t of None \<Rightarrow> [] | Some i \<Rightarrow> [i]) (tareas_de p))"

definition sin_colgantes :: "plan \<Rightarrow> plan" where
  "sin_colgantes p =
     p\<lparr>p_tareas :=
         map_option
           (map (\<lambda>t. t\<lparr>t_dependencias := filter (\<lambda>d. d \<in> set (ids_plan p)) (t_dependencias t)\<rparr>))
           (p_tareas p)\<rparr>"

text \<open>
  The order the specification asks of an optimised plan, in its words: every task
  appears at a later position than each task it depends on (no task depends on itself
  or on a task placed after it).
\<close>

fun dependencias_antes :: "tarea list \<Rightarrow> bool" where
  "dependencias_antes [] = True"
| "dependencias_antes (t # ts) =
     ((\<forall>d \<in> set (t_dependencias t). Some d \<notin> set (map t_id (t # ts))) \<and> dependencias_antes ts)"

text \<open>Example plans.\<close>

definition tarea_simple :: "string \<Rightarrow> string list \<Rightarrow> tarea" where
  "tarea_simple i ds =
     \<lparr>t_id = Some i, t_tipo = Some ''api'', t_herramienta = Some ''api_rest'',
      t_parametros = Some [], t_dependencias = ds, t_critica = False, t_max_reintentos = None\<rparr>"

definition plan_colgante :: plan where
  "plan_colgante = \<lparr>p_tareas = Some [tarea_simple ''T1'' [''fantasma'']]\<rparr>"

definition plan_cuatro :: plan where
  "plan_cuatro =
     \<lparr>p_tareas = Some [tarea_simple ''T1'' [], tarea_simple ''T2'' [],
                       tarea_simple ''T3'' [''T1'', ''T2''], tarea_simple ''T4'' [''T3'']]\<rparr>"

section \<open>Task results and episodes\<close>

text \<open>
  The dictionary a task execution returns.  \<^verbatim>\<open>resultado.get('exito', False)\<close> is
  \<open>exito_de\<close>: an absent key counts as failure.
\<close>

record resultado =
  r_exito :: "bool option"
  r_resultado :: "string option"
  r_error :: "string option"
  r_tipo_error :: "string option"
  r_reintentos :: "nat option"

definition exito_de :: "resultado \<Rightarrow> bool" where
  "exito_de r = (case r_exito r of None \<Rightarrow> False | Some b \<Rightarrow> b)"

text \<open>
  The episode dictionary, with the keys the episodic memory reads (\<open>None\<close>: the key is
  absent).  Timestamps are held as the text \<^verbatim>\<open>str\<close> gives for them.
\<close>

record episodio =
  ep_id :: "string option"
  ep_objetivo :: "string option"
  ep_session_id :: "string option"
  ep_plan_ejecutado :: "plan option"
  ep_resultados_tareas :: "resultado list option"
  ep_estado_global :: "string option"
  ep_duracion_total_segundos :: "real option"
  ep_timestamp_inicio :: "string option"
  ep_timestamp_fin :: "string option"
  ep_version_sistema :: "string option"
  ep_checksum_integridad :: "string option"

section \<open>The orchestrator: \<^verbatim>\<open>src/sistema/core.py\<close>\<close>

text \<open>
  \<^verbatim>\<open>NucleoSAAM\<close> receives its collaborators (\<^verbatim>\<open>mcp\<close>, \<^verbatim>\<open>met\<close>, \<^verbatim>\<open>sm3\<close>, \<^verbatim>\<open>mao\<close>) by injection.
  Each call on one of them is a field of \<open>colaboradores\<close>: what the call returns, or the
  exception it raises; \<open>ahora_iso\<close> is \<^verbatim>\<open>datetime.now().isoformat()\<close>.
  \<^verbatim>\<open>asyncio.create_task(self._fase_aprendizaje(...))\<close> only schedules the learning phase,
  which catches its own exceptions; it has no part in the value returned.
\<close>

record colaboradores =
  sm3_inicializar_sesion :: "string \<Rightarrow> py_error + unit"
  sm3_consultar_planes_similares :: "string \<Rightarrow> py_error + plan list"
  mcp_adaptar_plan_existente :: "string \<Rightarrow> plan \<Rightarrow> (string \<times> string) list \<Rightarrow> py_error + plan"
  mcp_generar_nuevo_plan :: "string \<Rightarrow> (string \<times> string) list \<Rightarrow> py_error + plan"
  sm3_guardar_contexto :: "string \<Rightarrow> string \<Rightarrow> py_error + unit"
  met_ejecutar_tarea :: "tarea \<Rightarrow> py_error + resultado"
  sm3_obtener_contexto_completo :: "string \<Rightarrow> py_error + unit"
  sm3_guardar_episodio :: "episodio \<Rightarrow> py_error + string"
  sm3_limpiar_sesion :: "string \<Rightarrow> py_error + unit"
  ahora_iso :: string

text \<open>
  The class calls \<^verbatim>\<open>self._generar_session_id()\<close>, \<^verbatim>\<open>self._calcular_metricas_episodio(...)\<close>
  and \<^verbatim>\<open>self._registrar_error(...)\<close>.  No file of the repository defines a method of
  any of these names, and \<^verbatim>\<open>NucleoSAAM\<close> has no base class.
\<close>

definition generar_session_id :: "py_error + string" where
  "generar_session_id = Inl (atributo_ausente ''NucleoSAAM'' ''_generar_session_id'')"

definition calcular_metricas_episodio :: "resultado list \<Rightarrow> py_error + unit" where
  "calcular_metricas_episodio resultados =
     Inl (atributo_ausente ''NucleoSAAM'' ''_calcular_metricas_episodio'')"

definition registrar_error :: "string \<Rightarrow> string \<Rightarrow> py_error + unit" where
  "registrar_error session_id texto =
     Inl (atributo_ausente ''NucleoSAAM'' ''_registrar_error'')"

text \<open>Sequencing of calls that may raise.\<close>

definition entonces :: "'e + 'a \<Rightarrow> ('a \<Rightarrow> 'e + 'b) \<Rightarrow> 'e + 'b" where
  "entonces m f = (case m of Inl e \<Rightarrow> Inl e | Inr x \<Rightarrow> f x)"

definition fase_planificacion ::
  "colaboradores \<Rightarrow> string \<Rightarrow> (string \<times> string) list \<Rightarrow> string \<Rightarrow> py_error + plan" where
  "fase_planificacion c objetivo contexto session_id =
     entonces (sm3_inicializar_sesion c session_id) (\<lambda>_.
     entonces (sm3_consultar_planes_similares c objetivo) (\<lambda>planes_similares.
     entonces (case planes_similares of
                 [] \<Rightarrow> mcp_generar_nuevo_plan c objetivo contexto
               | similar # _ \<Rightarrow> mcp_adaptar_plan_existente c objetivo similar contexto) (\<lambda>plan.
     entonces (sm3_guardar_contexto c session_id ''plan_actual'') (\<lambda>_.
     Inr plan))))"

text \<open>
  The loop of \<open>_fase_ejecucion\<close> over \<^verbatim>\<open>plan.get('tareas', [])\<close>, in list order.
  \<^verbatim>\<open>tarea['id']\<close> raises \<^verbatim>\<open>KeyError\<close> when the task has no id.
\<close>

fun ejecutar_tareas ::
  "colaboradores \<Rightarrow> string \<Rightarrow> tarea list \<Rightarrow> resultado list \<Rightarrow> py_error + resultado list" where
  "ejecutar_tareas c session_id [] resultados_tareas = Inr resultados_tareas"
| "ejecutar_tareas c session_id (tarea # tareas) resultados_tareas =
     entonces (met_ejecutar_tarea c tarea) (\<lambda>resultado.
     entonces (case t_id tarea of
                 None \<Rightarrow> Inl (PyError ''KeyError'' ''id'')
               | Some i \<Rightarrow> Inr i) (\<lambda>i.
     entonces (sm3_guardar_contexto c session_id (''resultado_'' @ i)) (\<lambda>_.
     if \<not> exito_de resultado \<and> t_critica tarea
     then Inl (PyError ''Exception'' (''Tarea critica fallida: '' @ i))
     else ejecutar_tareas c session_id tareas (resultados_tareas @ [resultado]))))"

definition fase_ejecucion :: "colaboradores \<Rightarrow> plan \<Rightarrow> string \<Rightarrow> py_error + resultado list" where
  "fase_ejecucion c plan session_id = ejecutar_tareas c session_id (tareas_de plan) []"

definition fase_recoleccion ::
  "colaboradores \<Rightarrow> string \<Rightarrow> plan \<Rightarrow> resultado list \<Rightarrow> string \<Rightarrow> py_error + string" where
  "fase_recoleccion c objetivo plan resultados session_id =
     entonces (sm3_obtener_contexto_completo c session_id) (\<lambda>_.
     entonces (calcular_metricas_episodio resultados) (\<lambda>_.
     entonces (sm3_guardar_episodio c
                 \<lparr>ep_id = None, ep_objetivo = Some objetivo, ep_session_id = Some session_id,
                  ep_plan_ejecutado = Some plan, ep_resultados_tareas = Some resultados,
                  ep_estado_global = None, ep_duracion_total_segundos = None,
                  ep_timestamp_inicio = None, ep_timestamp_fin = None,
                  ep_version_sistema = None, ep_checksum_integridad = None\<rparr>) (\<lambda>episodio_id.
     entonces (sm3_limpiar_sesion c session_id) (\<lambda>_.
     Inr episodio_id))))"

record respuesta =
  resp_session_id :: string
  resp_estado :: string
  resp_resultados :: "resultado list"
  resp_episodio_id :: string
  resp_timestamp :: string

text \<open>
  \<open>procesar_objetivo\<close>: \<^verbatim>\<open>session_id or self._generar_session_id()\<close> stands before the
  \<^verbatim>\<open>try\<close> (an empty string is falsy); the handler awaits \<^verbatim>\<open>_registrar_error\<close> and then
  re-raises, so an exception of \<^verbatim>\<open>_registrar_error\<close> is the one that leaves the method.
  The exceptions of the model are instances of \<^verbatim>\<open>Exception\<close>, which the handler catches.
\<close>

definition procesar_objetivo ::
  "colaboradores \<Rightarrow> string \<Rightarrow> (string \<times> string) list \<Rightarrow> string option \<Rightarrow> py_error + respuesta" where
  "procesar_objetivo c objetivo contexto_usuario session_id =
     entonces (case session_id of
                 None \<Rightarrow> generar_session_id
               | Some s \<Rightarrow> if s \<noteq> [] then Inr s else generar_session_id)
       (\<lambda>session_id.
          case entonces (fase_planificacion c objetivo contexto_usuario session_id) (\<lambda>plan.
               entonces (fase_ejecucion c plan session_id) (\<lambda>resultados.
               entonces (fase_recoleccion c objetivo plan resultados session_id) (\<lambda>episodio_id.
               Inr \<lparr>resp_session_id = session_id, resp_estado = ''completado'',
                    resp_resultados = resultados, resp_episodio_id = episodio_id,
                    resp_timestamp = ahora_iso c\<rparr>)))
          of Inr respuesta \<Rightarrow> Inr respuesta
           | Inl e \<Rightarrow>
               entonces (registrar_error session_id (err_mensaje e)) (\<lambda>_. Inl e))"

text \<open>Every critical task of the list has a successful result at its position.\<close>

definition criticas_exitosas :: "tarea list \<Rightarrow> resultado list \<Rightarrow> bool" where
  "criticas_exitosas ts rs = (\<forall>(t, r) \<in> set (zip ts rs). t_critica t \<longrightarrow> exito_de r)"

text \<open>
  Example: collaborators that all answer, a plan of one non-critical task, and an
  execution engine that reports the task as failed.
\<close>

definition resultado_fallido :: resultado where
  "resultado_fallido = \<lparr>r_exito = Some False, r_resultado = None, r_error = Some ''HTTP 500'',
     r_tipo_error = Some ''Exception'', r_reintentos = Some 3\<rparr>"

definition plan_una_tarea :: plan where
  "plan_una_tarea = \<lparr>p_tareas = Some [tarea_simple ''T1'' []]\<rparr>"

definition colaboradores_ejemplo :: colaboradores where
  "colaboradores_ejemplo =
     \<lparr>sm3_inicializar_sesion = (\<lambda>_. Inr ()),
      sm3_consultar_planes_similares = (\<lambda>_. Inr []),
      mcp_adaptar_plan_existente = (\<lambda>_ p _. Inr p),
      mcp_generar_nuevo_plan = (\<lambda>_ _. Inr plan_una_tarea),
      sm3_guardar_contexto = (\<lambda>_ _. Inr ()),
      met_ejecutar_tarea = (\<lambda>_. Inr resultado_fallido),
      sm3_obtener_contexto_completo = (\<lambda>_. Inr ()),
      sm3_guardar_episodio = (\<lambda>_. Inr ''episodio_1''),
      sm3_limpiar_sesion = (\<lambda>_. Inr ()),
      ahora_iso = ''2024-01-01T00:00:00''\<rparr>"

section \<open>The execution engine: \<^verbatim>\<open>src/sistema/met.py\<close>\<close>

text \<open>
  A tool is an external callable.  \<open>herramienta n\<close> is what its call number \<open>n\<close> (counted
  from 0 over the life of the engine) does: it returns a value or raises.  A call that
  \<^verbatim>\<open>asyncio.wait_for\<close> cuts off raises \<^verbatim>\<open>asyncio.TimeoutError\<close>.
\<close>

type_synonym herramienta = "nat \<Rightarrow> py_error + string"

text \<open>
  The execution context is a dictionary or \<^verbatim>\<open>None\<close> (the default of the parameter); the
  engine reads and writes its key \<^verbatim>\<open>reintento_actual\<close>.
\<close>

record contexto =
  ctx_session_id :: "string option"
  ctx_reintento_actual :: "nat option"

text \<open>
  What the engine is built from: the names bound in the module's global namespace, the
  configured retry budget (\<^verbatim>\<open>config.get('max_reintentos', 3)\<close>), the tool registry
  (\<^verbatim>\<open>obtener_herramienta\<close>), the two result processors that the class calls and does not
  define, and the value \<^verbatim>\<open>random.uniform(0, 1)\<close> would give.
\<close>

record entorno_met =
  em_globales :: "string list"
  em_max_reintentos :: "nat option"
  em_obtener_herramienta :: "string \<Rightarrow> herramienta option"
  em_procesar_resultado_busqueda :: "string \<Rightarrow> py_error + resultado"
  em_procesar_resultado_texto :: "string \<Rightarrow> py_error + resultado"
  em_random_uniform :: real

text \<open>
  The engine's state: the number of tool calls made, the delays slept, and the two
  counters of \<^verbatim>\<open>metricas_ejecucion\<close>.
\<close>

record estado_met =
  em_llamadas :: nat
  em_esperas :: "real list"
  em_tareas_completadas :: nat
  em_tareas_fallidas :: nat

text \<open>
  The names that \<^verbatim>\<open>met.py\<close> binds at module level: its imports (\<^verbatim>\<open>typing\<close>, \<^verbatim>\<open>asyncio\<close>,
  \<^verbatim>\<open>time\<close>, \<^verbatim>\<open>datetime\<close>, \<^verbatim>\<open>enum\<close>, \<^verbatim>\<open>concurrent.futures\<close>, \<^verbatim>\<open>loguru\<close>) and its two classes.
  The module does not import \<^verbatim>\<open>random\<close>.
\<close>

definition globales_met :: "string list" where
  "globales_met =
     [''Dict'', ''List'', ''Any'', ''Optional'', ''Callable'', ''asyncio'', ''time'', ''datetime'',
      ''Enum'', ''ThreadPoolExecutor'', ''ProcessPoolExecutor'', ''logger'', ''EstadoEjecucion'',
      ''ModuloEjecucionTareas'']"

text \<open>The messages of the exceptions are shortened; no property depends on them.\<close>

definition validar_tarea :: "tarea \<Rightarrow> py_error + tarea" where
  "validar_tarea tarea =
     (case (t_tipo tarea, t_herramienta tarea, t_parametros tarea) of
        (Some tipo, Some h, Some parametros) \<Rightarrow>
          if tipo = ''busqueda_web'' \<and> ''query'' \<notin> set parametros
          then Inl (PyError ''ValueError'' ''Busqueda web requiere parametro query'')
          else Inr tarea
      | _ \<Rightarrow> Inl (PyError ''ValueError'' ''Tarea invalida: faltan campos requeridos''))"

definition seleccionar_herramienta :: "entorno_met \<Rightarrow> tarea \<Rightarrow> py_error + herramienta" where
  "seleccionar_herramienta env tarea =
     (case t_herramienta tarea of
        None \<Rightarrow> Inl (PyError ''KeyError'' ''herramienta'')
      | Some herramienta_nombre \<Rightarrow>
          (case em_obtener_herramienta env herramienta_nombre of
             None \<Rightarrow> Inl (PyError ''ValueError'' (''Herramienta '' @ herramienta_nombre @ '' no disponible''))
           | Some herramienta \<Rightarrow> Inr herramienta))"

definition ejecutar_con_timeout ::
  "herramienta \<Rightarrow> estado_met \<Rightarrow> (py_error + string) \<times> estado_met" where
  "ejecutar_con_timeout herramienta st =
     (let st1 = st\<lparr>em_llamadas := em_llamadas st + 1\<rparr> in
      case herramienta (em_llamadas st) of
        Inr resultado \<Rightarrow> (Inr resultado, st1)
      | Inl e \<Rightarrow>
          if err_tipo e = ''asyncio.TimeoutError''
          then (Inl (PyError ''TimeoutError'' ''Timeout''), st1)
          else (Inl e, st1))"

definition procesar_resultado :: "entorno_met \<Rightarrow> string \<Rightarrow> tarea \<Rightarrow> py_error + resultado" where
  "procesar_resultado env resultado tarea =
     (if t_tipo tarea = Some ''busqueda_web'' then em_procesar_resultado_busqueda env resultado
      else if t_tipo tarea = Some ''generacion_texto'' then em_procesar_resultado_texto env resultado
      else Inr \<lparr>r_exito = None, r_resultado = Some resultado, r_error = None,
                r_tipo_error = None, r_reintentos = None\<rparr>)"

text \<open>
  The body of the \<^verbatim>\<open>try\<close> of \<open>ejecutar_tarea\<close>: validation, tool selection, the call,
  the processing of the result and \<open>_registrar_exito_tarea\<close>.
\<close>

definition intentar :: "entorno_met \<Rightarrow> tarea \<Rightarrow> estado_met \<Rightarrow> (py_error + resultado) \<times> estado_met" where
  "intentar env tarea st =
     (case validar_tarea tarea of
        Inl e \<Rightarrow> (Inl e, st)
      | Inr tarea_validada \<Rightarrow>
          (case seleccionar_herramienta env tarea_validada of
             Inl e \<Rightarrow> (Inl e, st)
           | Inr herramienta \<Rightarrow>
               (case ejecutar_con_timeout herramienta st of
                  (Inl e, st1) \<Rightarrow> (Inl e, st1)
                | (Inr resultado, st1) \<Rightarrow>
                    (case procesar_resultado env resultado tarea_validada of
                       Inl e \<Rightarrow> (Inl e, st1)
                     | Inr resultado_procesado \<Rightarrow>
                         (Inr resultado_procesado,
                          st1\<lparr>em_tareas_completadas := em_tareas_completadas st1 + 1\<rparr>)))))"

definition max_reintentos_de :: "entorno_met \<Rightarrow> tarea \<Rightarrow> nat" where
  "max_reintentos_de env tarea =
     (case t_max_reintentos tarea of
        Some n \<Rightarrow> n
      | None \<Rightarrow> (case em_max_reintentos env of Some n \<Rightarrow> n | None \<Rightarrow> 3))"

definition reintento_actual_de :: "contexto \<Rightarrow> nat" where
  "reintento_actual_de ctx = (case ctx_reintento_actual ctx of Some n \<Rightarrow> n | None \<Rightarrow> 0)"

definition registrar_fallo_tarea :: "estado_met \<Rightarrow> estado_met" where
  "registrar_fallo_tarea st = st\<lparr>em_tareas_fallidas := em_tareas_fallidas st + 1\<rparr>"

text \<open>
  \<open>ejecutar_tarea\<close> and \<open>_manejar_error\<close> call each other.  In \<open>_manejar_error\<close>,
  \<^verbatim>\<open>contexto.get\<close> raises \<^verbatim>\<open>AttributeError\<close> on \<^verbatim>\<open>None\<close>, and the argument of
  \<^verbatim>\<open>asyncio.sleep(2 ** reintento_actual + random.uniform(0, 1))\<close> looks the name
  \<^verbatim>\<open>random\<close> up in the module's globals, which raises \<^verbatim>\<open>NameError\<close> when it is not
  bound.  Both exceptions are raised inside the \<^verbatim>\<open>except\<close> block of \<open>ejecutar_tarea\<close> and
  leave it.  After a retry returns, the caller's \<open>_registrar_fallo_tarea\<close> runs.
\<close>

function ejecutar_tarea ::
    "entorno_met \<Rightarrow> tarea \<Rightarrow> contexto option \<Rightarrow> estado_met \<Rightarrow> (py_error + resultado) \<times> estado_met"
  and manejar_error ::
    "entorno_met \<Rightarrow> py_error \<Rightarrow> tarea \<Rightarrow> contexto option \<Rightarrow> estado_met \<Rightarrow>
       (py_error + resultado) \<times> estado_met"
where
  "ejecutar_tarea env tarea contexto st =
     (case intentar env tarea st of
        (Inr resultado_procesado, st1) \<Rightarrow> (Inr resultado_procesado, st1)
      | (Inl e, st1) \<Rightarrow>
          (case manejar_error env e tarea contexto st1 of
             (Inl e', st2) \<Rightarrow> (Inl e', st2)
           | (Inr resultado_error, st2) \<Rightarrow> (Inr resultado_error, registrar_fallo_tarea st2)))"
| "manejar_error env error tarea contexto st =
     (case contexto of
        None \<Rightarrow> (Inl (PyError ''AttributeError'' ''NoneType object has no attribute get''), st)
      | Some ctx \<Rightarrow>
          if reintento_actual_de ctx < max_reintentos_de env tarea then
            (if ''random'' \<in> set (em_globales env) then
               ejecutar_tarea env tarea
                 (Some (ctx\<lparr>ctx_reintento_actual := Some (reintento_actual_de ctx + 1)\<rparr>))
                 (st\<lparr>em_esperas := em_esperas st @
                       [2 ^ reintento_actual_de ctx + em_random_uniform env]\<rparr>)
             else (Inl (PyError ''NameError'' ''name random is not defined''), st))
          else
            (Inr \<lparr>r_exito = Some False, r_resultado = None, r_error = Some (err_mensaje error),
                  r_tipo_error = Some (err_tipo error),
                  r_reintentos = Some (reintento_actual_de ctx)\<rparr>, st))"
  by pat_completeness auto
termination
  by (relation "measure (\<lambda>x. case x of
        Inl (env, tarea, contexto, st) \<Rightarrow>
          2 * (max_reintentos_de env tarea -
               (case contexto of None \<Rightarrow> 0 | Some ctx \<Rightarrow> reintento_actual_de ctx)) + 1
      | Inr (env, error, tarea, contexto, st) \<Rightarrow>
          2 * (max_reintentos_de env tarea -
               (case contexto of None \<Rightarrow> 0 | Some ctx \<Rightarrow> reintento_actual_de ctx)))")
     (auto simp: reintento_actual_de_def)

declare ejecutar_tarea.simps [simp del] manejar_error.simps [simp del]

section \<open>The retry loop of \<^verbatim>\<open>src/met/ejecucion/motor_ejecucion.py\<close>\<close>

text \<open>
  \<open>MotorEjecucion._ejecutar_con_reintentos\<close> calls \<^verbatim>\<open>_es_error_recuperable\<close> and
  \<^verbatim>\<open>_manejar_reintento\<close>, which the repository does not define: they are parameters,
  each returning a value or raising.  \<open>_ejecutar_simple\<close> never raises: it turns the
  tool's exception into a result with \<^verbatim>\<open>exito\<close> false.
\<close>

record entorno_motor =
  mo_max_reintentos :: "nat option"
  mo_es_error_recuperable :: "string \<Rightarrow> py_error + bool"
  mo_manejar_reintento :: "nat \<Rightarrow> string \<Rightarrow> py_error + unit"

definition ejecutar_simple :: "herramienta \<Rightarrow> nat \<Rightarrow> resultado \<times> nat" where
  "ejecutar_simple herramienta llamadas =
     (case herramienta llamadas of
        Inr resultado \<Rightarrow>
          (\<lparr>r_exito = Some True, r_resultado = Some resultado, r_error = None,
            r_tipo_error = None, r_reintentos = None\<rparr>, llamadas + 1)
      | Inl e \<Rightarrow>
          (\<lparr>r_exito = Some False, r_resultado = None,
            r_error = Some (if err_tipo e = ''asyncio.TimeoutError'' then ''Timeout'' else err_mensaje e),
            r_tipo_error = None, r_reintentos = None\<rparr>, llamadas + 1))"

definition max_reintentos_motor :: "entorno_motor \<Rightarrow> tarea \<Rightarrow> nat" where
  "max_reintentos_motor env tarea =
     (case t_max_reintentos tarea of
        Some n \<Rightarrow> n
      | None \<Rightarrow> (case mo_max_reintentos env of Some n \<Rightarrow> n | None \<Rightarrow> 3))"

text \<open>The \<^verbatim>\<open>except Exception as e\<close> branch of the loop body: the counter after it, or the exception.\<close>

definition rama_except :: "entorno_motor \<Rightarrow> nat \<Rightarrow> nat \<Rightarrow> py_error \<Rightarrow> py_error + nat" where
  "rama_except env max_reintentos reintento_actual e =
     (let reintento_actual = reintento_actual + 1 in
      if reintento_actual > max_reintentos then Inl e
      else case mo_es_error_recuperable env (err_mensaje e) of
             Inl e' \<Rightarrow> Inl e'
           | Inr recuperable \<Rightarrow>
               if \<not> recuperable then Inl e
               else case mo_manejar_reintento env reintento_actual (err_mensaje e) of
                      Inl e' \<Rightarrow> Inl e'
                    | Inr _ \<Rightarrow> Inr reintento_actual)"

text \<open>
  The \<^verbatim>\<open>try\<close> part after a failed attempt: \<open>Inr None\<close> is \<^verbatim>\<open>break\<close>, \<open>Inr (Some n)\<close> the
  counter at the end of the iteration, \<open>Inl (n, e)\<close> an exception raised by a helper when
  the counter was \<open>n\<close>.
\<close>

definition rama_fallo :: "entorno_motor \<Rightarrow> nat \<Rightarrow> string \<Rightarrow> (nat \<times> py_error) + nat option" where
  "rama_fallo env reintento_actual error =
     (case mo_es_error_recuperable env error of
        Inl e \<Rightarrow> Inl (reintento_actual, e)
      | Inr recuperable \<Rightarrow>
          if recuperable then
            (case mo_manejar_reintento env (reintento_actual + 1) error of
               Inl e \<Rightarrow> Inl (reintento_actual + 1, e)
             | Inr _ \<Rightarrow> Inr (Some (reintento_actual + 1)))
          else Inr None)"

definition fallo_final :: "nat \<Rightarrow> py_error" where
  "fallo_final reintento_actual = PyError ''Exception'' ''Fallo despues de los intentos''"

text \<open>The \<^verbatim>\<open>while reintento_actual <= max_reintentos\<close> loop, one iteration per unfolding.\<close>

function bucle_reintentos_motor ::
  "entorno_motor \<Rightarrow> herramienta \<Rightarrow> nat \<Rightarrow> nat \<Rightarrow> nat \<Rightarrow> (py_error + resultado) \<times> nat" where
  "bucle_reintentos_motor env herramienta max_reintentos reintento_actual llamadas =
     (if reintento_actual \<le> max_reintentos then
        (case ejecutar_simple herramienta llamadas of
           (resultado, llamadas1) \<Rightarrow>
             if exito_de resultado then (Inr resultado, llamadas1)
             else
               (case rama_fallo env reintento_actual (case r_error resultado of Some m \<Rightarrow> m | None \<Rightarrow> []) of
                  Inr None \<Rightarrow> (Inl (fallo_final reintento_actual), llamadas1)
                | Inr (Some n) \<Rightarrow> bucle_reintentos_motor env herramienta max_reintentos n llamadas1
                | Inl (n, e) \<Rightarrow>
                    (case rama_except env max_reintentos n e of
                       Inl e' \<Rightarrow> (Inl e', llamadas1)
                     | Inr n' \<Rightarrow> bucle_reintentos_motor env herramienta max_reintentos n' llamadas1)))
      else (Inl (fallo_final reintento_actual), llamadas))"
  by pat_completeness auto
termination
  by (relation "measure (\<lambda>(env, h, m, r, l). Suc m - r)")
     (auto simp: rama_fallo_def rama_except_def Let_def split: sum.splits if_splits)

declare bucle_reintentos_motor.simps [simp del]

definition ejecutar_con_reintentos_motor ::
  "entorno_motor \<Rightarrow> herramienta \<Rightarrow> tarea \<Rightarrow> nat \<Rightarrow> (py_error + resultado) \<times> nat" where
  "ejecutar_con_reintentos_motor env herramienta tarea llamadas =
     bucle_reintentos_motor env herramienta (max_reintentos_motor env tarea) 0 llamadas"

text \<open>
  Example: a registry with the tool \<^verbatim>\<open>api_rest\<close>, whose first \<open>k\<close> calls raise
  \<^verbatim>\<open>ConnectionError\<close> and whose later calls return; the context the orchestrator passes.
\<close>

definition herramienta_inestable :: "nat \<Rightarrow> herramienta" where
  "herramienta_inestable k n =
     (if n < k then Inl (PyError ''ConnectionError'' ''connection refused'') else Inr ''ok'')"

definition entorno_met_ejemplo :: "string list \<Rightarrow> nat \<Rightarrow> entorno_met" where
  "entorno_met_ejemplo globales k =
     \<lparr>em_globales = globales, em_max_reintentos = None,
      em_obtener_herramienta =
        (\<lambda>nombre. if nombre = ''api_rest'' then Some (herramienta_inestable k) else None),
      em_procesar_resultado_busqueda = (\<lambda>r. Inl (PyError ''AttributeError'' ''_procesar_resultado_busqueda'')),
      em_procesar_resultado_texto = (\<lambda>r. Inl (PyError ''AttributeError'' ''_procesar_resultado_texto'')),
      em_random_uniform = 1 / 2\<rparr>"

definition estado_met_inicial :: estado_met where
  "estado_met_inicial =
     \<lparr>em_llamadas = 0, em_esperas = [], em_tareas_completadas = 0, em_tareas_fallidas = 0\<rparr>"

definition contexto_sesion :: contexto where
  "contexto_sesion = \<lparr>ctx_session_id = Some ''s1'', ctx_reintento_actual = None\<rparr>"

section \<open>Error classification: \<^verbatim>\<open>src/met/ejecucion/gestion_errores.py\<close>\<close>

record clasificacion =
  cl_tipo :: string
  cl_categoria :: string
  cl_recuperable :: bool
  cl_accion_recomendada :: string
  cl_confianza :: real

text \<open>
  \<^verbatim>\<open>str(error).lower()\<close> on ASCII text, and \<^verbatim>\<open>re.search\<close> for the patterns of the table,
  each an alternation of literal strings: the text contains one of the alternatives.
\<close>

definition lower_char :: "char \<Rightarrow> char" where
  "lower_char c = (let n = (of_char c :: nat) in if 65 \<le> n \<and> n \<le> 90 then char_of (n + 32) else c)"

definition lower :: "string \<Rightarrow> string" where
  "lower s = map lower_char s"

fun contiene :: "string \<Rightarrow> string \<Rightarrow> bool" where
  "contiene patron [] = (patron = [])"
| "contiene patron (c # s) = (take (length patron) (c # s) = patron \<or> contiene patron s)"

definition re_search :: "string list \<Rightarrow> string \<Rightarrow> bool" where
  "re_search alternativas texto = list_ex (\<lambda>a. contiene a texto) alternativas"

definition patrones_error :: "(string list \<times> clasificacion) list" where
  "patrones_error =
     [([''connection refused'', ''cannot connect''],
       \<lparr>cl_tipo = ''conexion_rechazada'', cl_categoria = ''infraestructura'', cl_recuperable = True,
        cl_accion_recomendada = ''reintentar_con_backoff'', cl_confianza = 85 / 100\<rparr>),
      ([''timeout'', ''timed out''],
       \<lparr>cl_tipo = ''timeout'', cl_categoria = ''rendimiento'', cl_recuperable = True,
        cl_accion_recomendada = ''reintentar_con_backoff'', cl_confianza = 9 / 10\<rparr>),
      ([''rate limit'', ''too many requests''],
       \<lparr>cl_tipo = ''rate_limiting'', cl_categoria = ''recursos'', cl_recuperable = True,
        cl_accion_recomendada = ''reintentar_con_backoff_exponencial'', cl_confianza = 8 / 10\<rparr>),
      ([''authentication'', ''unauthorized'', ''invalid token''],
       \<lparr>cl_tipo = ''autenticacion'', cl_categoria = ''seguridad'', cl_recuperable = False,
        cl_accion_recomendada = ''escalar_a_mcp'', cl_confianza = 95 / 100\<rparr>),
      ([''not found'', ''404'', ''invalid endpoint''],
       \<lparr>cl_tipo = ''recurso_no_encontrado'', cl_categoria = ''configuracion'', cl_recuperable = False,
        cl_accion_recomendada = ''escalar_a_mcp'', cl_confianza = 7 / 10\<rparr>)]"

text \<open>
  \<open>clasificar_error\<close>: first by the exception's class, then by the first pattern of the
  table that matches, whose entry replaces all five keys.  Before it returns, the method
  calls \<^verbatim>\<open>self._actualizar_estadisticas(clasificacion)\<close>; \<^verbatim>\<open>GestorErrores\<close> defines no
  method of that name and has no base class.
\<close>

definition clasificacion_por_tipo :: "string \<Rightarrow> clasificacion" where
  "clasificacion_por_tipo tipo_error =
     (if tipo_error \<in> set [''TimeoutError'', ''asyncio.TimeoutError''] then
        \<lparr>cl_tipo = ''timeout'', cl_categoria = ''rendimiento'', cl_recuperable = True,
         cl_accion_recomendada = ''reintentar_con_backoff'', cl_confianza = 9 / 10\<rparr>
      else if tipo_error \<in> set [''ConnectionError'', ''NetworkError''] then
        \<lparr>cl_tipo = ''conexion'', cl_categoria = ''infraestructura'', cl_recuperable = True,
         cl_accion_recomendada = ''reintentar_inmediato'', cl_confianza = 8 / 10\<rparr>
      else
        \<lparr>cl_tipo = ''desconocido'', cl_categoria = ''no_clasificado'', cl_recuperable = False,
         cl_accion_recomendada = ''escalar_a_mcp'', cl_confianza = 0\<rparr>)"

fun clasificacion_por_patron ::
  "(string list \<times> clasificacion) list \<Rightarrow> string \<Rightarrow> clasificacion \<Rightarrow> clasificacion" where
  "clasificacion_por_patron [] mensaje_error clasificacion = clasificacion"
| "clasificacion_por_patron ((patron, info) # patrones) mensaje_error clasificacion =
     (if re_search patron mensaje_error
      then info\<lparr>cl_confianza := max (cl_confianza info) (cl_confianza info)\<rparr>
      else clasificacion_por_patron patrones mensaje_error clasificacion)"

definition actualizar_estadisticas :: "clasificacion \<Rightarrow> py_error + unit" where
  "actualizar_estadisticas clasificacion =
     Inl (atributo_ausente ''GestorErrores'' ''_actualizar_estadisticas'')"

definition clasificar_error :: "py_error \<Rightarrow> py_error + clasificacion" where
  "clasificar_error error =
     (let clasificacion =
        clasificacion_por_patron patrones_error (lower (err_mensaje error))
          (clasificacion_por_tipo (err_tipo error))
      in case actualizar_estadisticas clasificacion of
           Inl e \<Rightarrow> Inl e
         | Inr _ \<Rightarrow> Inr clasificacion)"

text \<open>A retry strategy; \<open>es_base\<close> is read as \<^verbatim>\<open>estrategia.get('base', 2)\<close>.\<close>

record estrategia =
  es_delay :: real
  es_max_reintentos :: nat
  es_backoff :: string
  es_base :: "real option"

definition obtener_estrategia_reintento :: "clasificacion \<Rightarrow> estrategia" where
  "obtener_estrategia_reintento clasificacion =
     (if cl_accion_recomendada clasificacion = ''reintentar_inmediato'' then
        \<lparr>es_delay = 1, es_max_reintentos = 3, es_backoff = ''ninguno'', es_base = None\<rparr>
      else if cl_accion_recomendada clasificacion = ''reintentar_con_backoff'' then
        \<lparr>es_delay = 2, es_max_reintentos = 5, es_backoff = ''lineal'', es_base = None\<rparr>
      else if cl_accion_recomendada clasificacion = ''reintentar_con_backoff_exponencial'' then
        \<lparr>es_delay = 1, es_max_reintentos = 7, es_backoff = ''exponencial'', es_base = Some 2\<rparr>
      else \<lparr>es_delay = 5, es_max_reintentos = 3, es_backoff = ''lineal'', es_base = None\<rparr>)"

section \<open>The retry mechanism: \<^verbatim>\<open>src/met/ejecucion/mecanismo_reintentos.py\<close>\<close>

fun fibonacci_bucle :: "nat \<Rightarrow> nat \<Rightarrow> nat \<Rightarrow> nat" where
  "fibonacci_bucle 0 a b = a"
| "fibonacci_bucle (Suc n) a b = fibonacci_bucle n b (a + b)"

definition fibonacci :: "nat \<Rightarrow> nat" where
  "fibonacci n = fibonacci_bucle n 0 1"

definition calcular_delay :: "nat \<Rightarrow> estrategia \<Rightarrow> real" where
  "calcular_delay reintento_actual estrategia =
     (if es_backoff estrategia = ''ninguno'' then es_delay estrategia
      else if es_backoff estrategia = ''lineal'' then es_delay estrategia * real reintento_actual
      else if es_backoff estrategia = ''exponencial'' then
        es_delay estrategia *
          (case es_base estrategia of None \<Rightarrow> 2 | Some b \<Rightarrow> b) ^ reintento_actual
      else if es_backoff estrategia = ''fibonacci'' then
        es_delay estrategia * real (fibonacci reintento_actual)
      else es_delay estrategia)"

text \<open>
  The function retried is external: \<open>funcion n\<close> is what its call number \<open>n\<close> does.  The
  state records the calls made and the delays passed to \<^verbatim>\<open>asyncio.sleep\<close>, in order.
\<close>

record estado_reintentos =
  er_llamadas :: nat
  er_esperas :: "real list"

definition manejar_fallo :: "nat \<Rightarrow> estrategia \<Rightarrow> estado_reintentos \<Rightarrow> nat \<times> estado_reintentos" where
  "manejar_fallo reintento_actual estrategia st =
     (let reintento_actual = reintento_actual + 1 in
      if reintento_actual \<ge> es_max_reintentos estrategia then (reintento_actual, st)
      else (reintento_actual,
            st\<lparr>er_esperas := er_esperas st @ [calcular_delay reintento_actual estrategia]\<rparr>))"

definition manejar_excepcion ::
  "nat \<Rightarrow> estrategia \<Rightarrow> py_error \<Rightarrow> estado_reintentos \<Rightarrow> (py_error + nat) \<times> estado_reintentos" where
  "manejar_excepcion reintento_actual estrategia error st =
     (let reintento_actual = reintento_actual + 1 in
      if reintento_actual \<ge> es_max_reintentos estrategia then (Inl error, st)
      else (Inr reintento_actual,
            st\<lparr>er_esperas := er_esperas st @ [calcular_delay reintento_actual estrategia]\<rparr>))"

function bucle_reintentos ::
  "(nat \<Rightarrow> py_error + resultado) \<Rightarrow> estrategia \<Rightarrow> nat \<Rightarrow> estado_reintentos \<Rightarrow>
     (py_error + resultado) \<times> estado_reintentos" where
  "bucle_reintentos funcion estrategia reintento_actual st =
     (if reintento_actual < es_max_reintentos estrategia then
        (let st1 = st\<lparr>er_llamadas := er_llamadas st + 1\<rparr> in
         case funcion (er_llamadas st) of
           Inr resultado \<Rightarrow>
             if exito_de resultado then (Inr resultado, st1)
             else (case manejar_fallo reintento_actual estrategia st1 of
                     (n, st2) \<Rightarrow> bucle_reintentos funcion estrategia n st2)
         | Inl e \<Rightarrow>
             (case manejar_excepcion reintento_actual estrategia e st1 of
                (Inl e', st2) \<Rightarrow> (Inl e', st2)
              | (Inr n, st2) \<Rightarrow> bucle_reintentos funcion estrategia n st2))
      else (Inl (PyError ''Exception'' ''Fallo despues de los reintentos''), st))"
  by pat_completeness auto
termination
  by (relation "measure (\<lambda>(f, e, r, s). es_max_reintentos e - r)")
     (auto simp: manejar_fallo_def manejar_excepcion_def Let_def split: if_splits)

declare bucle_reintentos.simps [simp del]

definition estrategia_default :: estrategia where
  "estrategia_default =
     \<lparr>es_delay = 2, es_max_reintentos = 3, es_backoff = ''exponencial'', es_base = Some 2\<rparr>"

definition ejecutar_con_reintentos ::
  "(nat \<Rightarrow> py_error + resultado) \<Rightarrow> estrategia option \<Rightarrow> estado_reintentos \<Rightarrow>
     (py_error + resultado) \<times> estado_reintentos" where
  "ejecutar_con_reintentos funcion estrategia st =
     bucle_reintentos funcion (case estrategia of None \<Rightarrow> estrategia_default | Some e \<Rightarrow> e) 0 st"

text \<open>
  Example: a tool that raises "rate limit exceeded" on its first two calls and then
  returns; the execution engine with that tool registered as \<^verbatim>\<open>api_rest\<close>; the retry
  loop of \<open>MotorEjecucion\<close>, whose class defines neither \<^verbatim>\<open>_es_error_recuperable\<close> nor
  \<^verbatim>\<open>_manejar_reintento\<close>; and the same tool as a function for \<open>MecanismoReintentos\<close>,
  which returns a result dictionary.
\<close>

definition error_rate_limit :: py_error where
  "error_rate_limit = PyError ''Exception'' ''rate limit exceeded''"

definition herramienta_rate_limit :: herramienta where
  "herramienta_rate_limit n = (if n < 2 then Inl error_rate_limit else Inr ''datos'')"

definition entorno_met_rate_limit :: "string list \<Rightarrow> entorno_met" where
  "entorno_met_rate_limit globales =
     \<lparr>em_globales = globales, em_max_reintentos = None,
      em_obtener_herramienta =
        (\<lambda>nombre. if nombre = ''api_rest'' then Some herramienta_rate_limit else None),
      em_procesar_resultado_busqueda =
        (\<lambda>r. Inl (atributo_ausente ''ModuloEjecucionTareas'' ''_procesar_resultado_busqueda'')),
      em_procesar_resultado_texto =
        (\<lambda>r. Inl (atributo_ausente ''ModuloEjecucionTareas'' ''_procesar_resultado_texto'')),
      em_random_uniform = 1 / 2\<rparr>"

definition entorno_motor_ejemplo :: entorno_motor where
  "entorno_motor_ejemplo =
     \<lparr>mo_max_reintentos = None,
      mo_es_error_recuperable =
        (\<lambda>_. Inl (atributo_ausente ''MotorEjecucion'' ''_es_error_recuperable'')),
      mo_manejar_reintento =
        (\<lambda>_ _. Inl (atributo_ausente ''MotorEjecucion'' ''_manejar_reintento''))\<rparr>"

definition resultado_exitoso :: resultado where
  "resultado_exitoso = \<lparr>r_exito = Some True, r_resultado = Some ''datos'', r_error = None,
     r_tipo_error = None, r_reintentos = None\<rparr>"

definition funcion_rate_limit :: "nat \<Rightarrow> py_error + resultado" where
  "funcion_rate_limit n = (if n < 2 then Inl error_rate_limit else Inr resultado_exitoso)"

section \<open>The episodic log: \<^verbatim>\<open>src/memoria/episodica/gestor_episodica.py\<close>\<close>

text \<open>
  A row of the table \<^verbatim>\<open>episodios\<close> (\<open>EpisodioDB\<close>), with its columns declared
  \<^verbatim>\<open>nullable=False\<close> and the primary key \<^verbatim>\<open>id\<close>.  The table is the list of its rows.
\<close>

record fila_episodio =
  fe_id :: string
  fe_objetivo :: string
  fe_session_id :: string
  fe_plan_ejecutado :: plan
  fe_resultados_tareas :: "resultado list"
  fe_estado_global :: string
  fe_duracion_total :: real
  fe_timestamp_inicio :: string
  fe_timestamp_fin :: string
  fe_version_sistema :: string
  fe_checksum_integridad :: string

text \<open>\<^verbatim>\<open>d.get(k, default)\<close>\<close>

definition o_bien :: "'a option \<Rightarrow> 'a \<Rightarrow> 'a" where
  "o_bien v d = (case v of None \<Rightarrow> d | Some x \<Rightarrow> x)"

text \<open>
  \<open>guardar_episodio\<close>: the id is generated when the dictionary has none (the generated id
  is the argument \<open>id_generado\<close>); every other column is read with \<^verbatim>\<open>get\<close>.  The commit
  fails with \<^verbatim>\<open>IntegrityError\<close> on a repeated id or on a start or end timestamp that is
  \<^verbatim>\<open>None\<close>; the handler rolls back and re-raises, so the table is unchanged.
\<close>

definition guardar_episodio ::
  "string \<Rightarrow> episodio \<Rightarrow> fila_episodio list \<Rightarrow> (py_error + string) \<times> fila_episodio list" where
  "guardar_episodio id_generado episodio tabla =
     (let episodio_id = o_bien (ep_id episodio) id_generado in
      case (ep_timestamp_inicio episodio, ep_timestamp_fin episodio) of
        (Some inicio, Some fin) \<Rightarrow>
          if episodio_id \<in> set (map fe_id tabla)
          then (Inl (PyError ''IntegrityError'' ''UNIQUE constraint failed: episodios.id''), tabla)
          else
            (Inr episodio_id,
             tabla @
               [\<lparr>fe_id = episodio_id,
                 fe_objetivo = o_bien (ep_objetivo episodio) [],
                 fe_session_id = o_bien (ep_session_id episodio) [],
                 fe_plan_ejecutado = o_bien (ep_plan_ejecutado episodio) \<lparr>p_tareas = None\<rparr>,
                 fe_resultados_tareas = o_bien (ep_resultados_tareas episodio) [],
                 fe_estado_global = o_bien (ep_estado_global episodio) ''desconocido'',
                 fe_duracion_total = o_bien (ep_duracion_total_segundos episodio) 0,
                 fe_timestamp_inicio = inicio,
                 fe_timestamp_fin = fin,
                 fe_version_sistema = o_bien (ep_version_sistema episodio) [],
                 fe_checksum_integridad = o_bien (ep_checksum_integridad episodio) []\<rparr>])
      | _ \<Rightarrow> (Inl (PyError ''IntegrityError'' ''NOT NULL constraint failed''), tabla))"

definition db_a_dict :: "fila_episodio \<Rightarrow> episodio" where
  "db_a_dict episodio_db =
     \<lparr>ep_id = Some (fe_id episodio_db),
      ep_objetivo = Some (fe_objetivo episodio_db),
      ep_session_id = Some (fe_session_id episodio_db),
      ep_plan_ejecutado = Some (fe_plan_ejecutado episodio_db),
      ep_resultados_tareas = Some (fe_resultados_tareas episodio_db),
      ep_estado_global = Some (fe_estado_global episodio_db),
      ep_duracion_total_segundos = Some (fe_duracion_total episodio_db),
      ep_timestamp_inicio = Some (fe_timestamp_inicio episodio_db),
      ep_timestamp_fin = Some (fe_timestamp_fin episodio_db),
      ep_version_sistema = Some (fe_version_sistema episodio_db),
      ep_checksum_integridad = Some (fe_checksum_integridad episodio_db)\<rparr>"

definition obtener_episodio :: "string \<Rightarrow> fila_episodio list \<Rightarrow> episodio option" where
  "obtener_episodio episodio_id tabla =
     (case filter (\<lambda>f. fe_id f = episodio_id) tabla of
        [] \<Rightarrow> None
      | episodio_db # _ \<Rightarrow> Some (db_a_dict episodio_db))"

section \<open>Integrity validation: \<^verbatim>\<open>src/memoria/episodica/integridad.py\<close>\<close>

text \<open>
  \<^verbatim>\<open>hashlib.sha256(contenido.encode())\<close> is a parameter: a function from the text to its
  256-bit digest.  \<^verbatim>\<open>hexdigest()\<close> writes the digest as 64 hexadecimal digits.
\<close>

definition hex_digito :: "nat \<Rightarrow> char" where
  "hex_digito n = ''0123456789abcdef'' ! (n mod 16)"

definition hexdigest :: "256 word \<Rightarrow> string" where
  "hexdigest w = map (\<lambda>i. hex_digito (unat (take_bit 4 (drop_bit (4 * (63 - i)) w)))) [0..<64]"

definition contenido_checksum :: "episodio \<Rightarrow> string" where
  "contenido_checksum episodio =
     o_bien (ep_objetivo episodio) [] @ o_bien (ep_timestamp_inicio episodio) [] @
     o_bien (ep_timestamp_fin episodio) [] @ o_bien (ep_version_sistema episodio) []"

definition calcular_checksum :: "(string \<Rightarrow> 256 word) \<Rightarrow> episodio \<Rightarrow> string" where
  "calcular_checksum sha256 episodio = hexdigest (sha256 (contenido_checksum episodio))"

definition validar_checksum :: "(string \<Rightarrow> 256 word) \<Rightarrow> episodio \<Rightarrow> bool" where
  "validar_checksum sha256 episodio =
     (calcular_checksum sha256 episodio = o_bien (ep_checksum_integridad episodio) [])"

text \<open>
  \<open>Episodio.calcular_checksum\<close> of \<^verbatim>\<open>src/memoria/episodica/esquemas.py\<close> hashes the
  objective and the two timestamps only.
\<close>

definition contenido_checksum_esquema :: "episodio \<Rightarrow> string" where
  "contenido_checksum_esquema episodio =
     o_bien (ep_objetivo episodio) [] @ o_bien (ep_timestamp_inicio episodio) [] @
     o_bien (ep_timestamp_fin episodio) []"

text \<open>Example: a complete episode, with the checksum key absent or given.\<close>

definition episodio_ejemplo :: "string option \<Rightarrow> episodio" where
  "episodio_ejemplo checksum =
     \<lparr>ep_id = Some ''episodio_20240101_000000_ab12cd34'', ep_objetivo = Some ''resumir X'',
      ep_session_id = Some ''s1'', ep_plan_ejecutado = Some plan_una_tarea,
      ep_resultados_tareas = Some [], ep_estado_global = Some ''exito'',
      ep_duracion_total_segundos = Some 3,
      ep_timestamp_inicio = Some ''2024-01-01 00:00:00'',
      ep_timestamp_fin = Some ''2024-01-01 00:00:03'',
      ep_version_sistema = Some ''1.0.0'', ep_checksum_integridad = checksum\<rparr>"

section \<open>Skill metrics: \<^verbatim>\<open>src/memoria/metricas.py\<close>\<close>

text \<open>
  The metrics are Python floats.  \<open>_calcular_nuevas_metricas\<close> is written once, over the
  arithmetic it computes with: the value of a decimal literal, and the sum, difference
  and product of two numbers.  \<open>exacta\<close> is the arithmetic of the real numbers;
  \<open>binary64\<close> is IEEE 754 double precision, where every literal and every operation is
  rounded to the nearest double, ties to even (\<open>redondear\<close>).
\<close>

record aritmetica =
  ar_literal :: "real \<Rightarrow> real"
  ar_suma :: "real \<Rightarrow> real \<Rightarrow> real"
  ar_resta :: "real \<Rightarrow> real \<Rightarrow> real"
  ar_producto :: "real \<Rightarrow> real \<Rightarrow> real"

definition exacta :: aritmetica where
  "exacta = \<lparr>ar_literal = (\<lambda>x. x), ar_suma = (+), ar_resta = (-), ar_producto = (*)\<rparr>"

definition binary64 :: aritmetica where
  "binary64 =
     \<lparr>ar_literal = redondear,
      ar_suma = (\<lambda>a b. redondear (a + b)),
      ar_resta = (\<lambda>a b. redondear (a - b)),
      ar_producto = (\<lambda>a b. redondear (a * b))\<rparr>"

text \<open>
  The metrics dictionary of a skill, the result of one execution of it, and the
  configured smoothing factor \<^verbatim>\<open>config.get('alpha_metricas', 0.1)\<close>.
\<close>

record metricas =
  m_tasa_exito :: "real option"
  m_tiempo_promedio :: "real option"

record resultado_habilidad =
  rh_exito :: "bool option"
  rh_duracion :: "real option"

definition calcular_nuevas_metricas ::
  "aritmetica \<Rightarrow> real option \<Rightarrow> metricas \<Rightarrow> resultado_habilidad \<Rightarrow> metricas" where
  "calcular_nuevas_metricas ar alpha_metricas metricas_actuales resultado =
     (let exito_actual = (if rh_exito resultado = Some True then 1 else 0);
          tasa_exito_anterior =
            (case m_tasa_exito metricas_actuales of None \<Rightarrow> ar_literal ar (1 / 2) | Some t \<Rightarrow> t);
          alpha = (case alpha_metricas of None \<Rightarrow> ar_literal ar (1 / 10) | Some a \<Rightarrow> a);
          nuevas_metricas =
            metricas_actuales
              \<lparr>m_tasa_exito :=
                 Some (ar_suma ar (ar_producto ar alpha exito_actual)
                         (ar_producto ar (ar_resta ar 1 alpha) tasa_exito_anterior))\<rparr>;
          tiempo_ejecucion = (case rh_duracion resultado of None \<Rightarrow> 0 | Some d \<Rightarrow> d)
      in if tiempo_ejecucion > 0 then
           (let tiempo_promedio_anterior =
                  (case m_tiempo_promedio metricas_actuales of None \<Rightarrow> 0 | Some t \<Rightarrow> t)
            in if tiempo_promedio_anterior = 0
               then nuevas_metricas\<lparr>m_tiempo_promedio := Some tiempo_ejecucion\<rparr>
               else nuevas_metricas
                      \<lparr>m_tiempo_promedio :=
                         Some (ar_suma ar (ar_producto ar alpha tiempo_ejecucion)
                                 (ar_producto ar (ar_resta ar 1 alpha) tiempo_promedio_anterior))\<rparr>)
         else nuevas_metricas)"

text \<open>
  The stored success rate (\<^verbatim>\<open>0.5\<close> when the key is absent), and \<open>k\<close> successful uses
  in a row, each with its duration if it reports one.
\<close>

definition tasa_de :: "metricas \<Rightarrow> real" where
  "tasa_de m = (case m_tasa_exito m of None \<Rightarrow> 1 / 2 | Some t \<Rightarrow> t)"

fun usos_exitosos :: "aritmetica \<Rightarrow> real option \<Rightarrow> real option list \<Rightarrow> metricas \<Rightarrow> metricas" where
  "usos_exitosos ar alpha [] m = m"
| "usos_exitosos ar alpha (d # ds) m =
     usos_exitosos ar alpha ds
       (calcular_nuevas_metricas ar alpha m \<lparr>rh_exito = Some True, rh_duracion = d\<rparr>)"

section \<open>Properties of the working memory\<close>


lemma claves_dict_set: "claves (dict_set k v d) = insert k (claves d)"
  by (simp add: claves_def dict_set_def dom_update)

lemma distinct_dict_set: "distinct (map fst d) \<Longrightarrow> distinct (map fst (dict_set k v d))"
  by (simp add: dict_set_def distinct_update)

lemma claves_delete: "claves (AList.delete k d) = claves d - {k}"
  by (simp add: claves_def delete_keys)

lemma coherente_nueva: "mt_coherente (memoria_nueva t)"
  by (simp add: mt_coherente_def memoria_nueva_def claves_def)

lemma coherente_guardar: "mt_coherente s \<Longrightarrow> mt_coherente (guardar k v e t s)"
  by (auto simp: mt_coherente_def guardar_def Let_def claves_dict_set distinct_dict_set
      split: option.splits)

lemma coherente_obtener: "mt_coherente s \<Longrightarrow> mt_coherente (snd (obtener k d t s))"
proof (cases "map_of (mt_almacen s) k")
  case None
  then show "mt_coherente s \<Longrightarrow> ?thesis" by (simp add: obtener_def)
next
  case (Some v)
  then have "k \<in> claves (mt_almacen s)"
    by (metis claves_def image_set map_of_eq_None_iff option.distinct(1))
  then show "mt_coherente s \<Longrightarrow> ?thesis" using Some
    by (auto simp: obtener_def mt_coherente_def claves_dict_set distinct_dict_set)
qed

lemma coherente_limpiar_todo: "mt_coherente (limpiar_todo s)"
  by (simp add: mt_coherente_def limpiar_todo_def claves_def)

text \<open>
  Deleting a list of distinct keys that the store holds never raises; it removes
  exactly those keys from the three dictionaries and leaves every other entry as it was.
\<close>

lemma eliminar_claves_ok:
  "mt_coherente s \<Longrightarrow> distinct ks \<Longrightarrow> set ks \<subseteq> claves (mt_almacen s) \<Longrightarrow>
   \<exists>s'. eliminar_claves ks s = Inr s' \<and> mt_coherente s' \<and>
        claves (mt_almacen s') = claves (mt_almacen s) - set ks \<and>
        map_of (mt_almacen s') = (\<lambda>k. if k \<in> set ks then None else map_of (mt_almacen s) k) \<and>
        map_of (mt_timestamp_acceso s') =
          (\<lambda>k. if k \<in> set ks then None else map_of (mt_timestamp_acceso s) k) \<and>
        mt_timeout s' = mt_timeout s"
proof (induction ks arbitrary: s)
  case Nil
  then show ?case by simp
next
  case (Cons k ks)
  let ?s1 = "s\<lparr>mt_almacen := AList.delete k (mt_almacen s),
                mt_timestamp_acceso := AList.delete k (mt_timestamp_acceso s),
                mt_timestamp_creacion := AList.delete k (mt_timestamp_creacion s)\<rparr>"
  from Cons.prems have k_in: "k \<in> claves (mt_almacen s)" by simp
  with Cons.prems(1) have k_all:
    "dict_in k (mt_almacen s)" "dict_in k (mt_timestamp_acceso s)"
    "dict_in k (mt_timestamp_creacion s)"
    by (auto simp: dict_in_def mt_coherente_def)
  have step: "eliminar_claves (k # ks) s = eliminar_claves ks ?s1"
    using k_all by (simp add: dict_del_def)
  have coh1: "mt_coherente ?s1"
    using Cons.prems(1) by (auto simp: mt_coherente_def claves_delete distinct_delete)
  have sub1: "set ks \<subseteq> claves (mt_almacen ?s1)"
    using Cons.prems(2,3) by (auto simp: claves_delete)
  from Cons.IH[OF coh1 _ sub1] Cons.prems(2)
  obtain s' where s': "eliminar_claves ks ?s1 = Inr s'" "mt_coherente s'"
      "claves (mt_almacen s') = claves (mt_almacen ?s1) - set ks"
      "map_of (mt_almacen s') = (\<lambda>j. if j \<in> set ks then None else map_of (mt_almacen ?s1) j)"
      "map_of (mt_timestamp_acceso s') =
         (\<lambda>j. if j \<in> set ks then None else map_of (mt_timestamp_acceso ?s1) j)"
      "mt_timeout s' = mt_timeout ?s1"
    by auto
  have "claves (mt_almacen s') = claves (mt_almacen s) - set (k # ks)"
    using s'(3) by (auto simp: claves_delete)
  moreover have "map_of (mt_almacen s') =
      (\<lambda>j. if j \<in> set (k # ks) then None else map_of (mt_almacen s) j)"
    using s'(4) by (auto simp: delete_conv' fun_eq_iff)
  moreover have "map_of (mt_timestamp_acceso s') =
      (\<lambda>j. if j \<in> set (k # ks) then None else map_of (mt_timestamp_acceso s) j)"
    using s'(5) by (auto simp: delete_conv' fun_eq_iff)
  ultimately show ?case using step s'(1,2,6) by simp
qed

lemma claves_a_eliminar_ok:
  "mt_coherente s \<Longrightarrow>
   distinct (claves_a_eliminar ahora s) \<and> set (claves_a_eliminar ahora s) \<subseteq> claves (mt_almacen s)"
  by (auto simp: claves_a_eliminar_def mt_coherente_def claves_def distinct_map_filter)

lemma limpiar_expirados_ok:
  "mt_coherente s \<Longrightarrow>
   \<exists>s'. limpiar_expirados ahora s = Inr s' \<and> mt_coherente s' \<and>
        map_of (mt_almacen s') =
          (\<lambda>k. if k \<in> set (claves_a_eliminar ahora s) then None else map_of (mt_almacen s) k) \<and>
        map_of (mt_timestamp_acceso s') =
          (\<lambda>k. if k \<in> set (claves_a_eliminar ahora s) then None
               else map_of (mt_timestamp_acceso s) k)"
  using eliminar_claves_ok[of s "claves_a_eliminar ahora s"] claves_a_eliminar_ok[of s ahora]
  unfolding limpiar_expirados_def by blast

lemma eliminar_ok:
  "mt_coherente s \<Longrightarrow> \<exists>b s'. eliminar k s = Inr (b, s') \<and> mt_coherente s'"
proof (cases "dict_in k (mt_almacen s)")
  case False
  then show "mt_coherente s \<Longrightarrow> ?thesis" by (auto simp: eliminar_def)
next
  case True
  assume coh: "mt_coherente s"
  from True have "set [k] \<subseteq> claves (mt_almacen s)" by (simp add: dict_in_def)
  from eliminar_claves_ok[OF coh _ this]
  obtain s' where "eliminar_claves [k] s = Inr s'" "mt_coherente s'" by auto
  then show ?thesis using True
    by (auto simp: eliminar_def simp del: eliminar_claves.simps)
qed

lemma aplicar_ok: "mt_coherente s \<Longrightarrow> \<exists>s'. aplicar x s = Inr s' \<and> mt_coherente s'"
proof (cases x)
  case (Eliminar k)
  assume "mt_coherente s"
  from eliminar_ok[OF this, of k] show ?thesis using Eliminar by auto
next
  case (LimpiarExpirados t)
  assume "mt_coherente s"
  from limpiar_expirados_ok[OF this, of t] show ?thesis using LimpiarExpirados by auto
qed (simp_all add: coherente_guardar coherente_obtener coherente_limpiar_todo)

lemma ejecutar_ops_ok:
  "mt_coherente s \<Longrightarrow> \<exists>s'. ejecutar_ops xs s = Inr s' \<and> mt_coherente s'"
proof (induction xs arbitrary: s)
  case Nil
  then show ?case by simp
next
  case (Cons x xs)
  from aplicar_ok[OF Cons.prems, of x]
  obtain s1 where "aplicar x s = Inr s1" "mt_coherente s1" by auto
  with Cons.IH[of s1] show ?case by simp
qed

text \<open>
  C10.  After any sequence of put, get, delete (a client's or a timer's), clear-all and
  sweep operations on a fresh working memory, no operation has raised, and a key is in
  the value store exactly when it is in the access-time dictionary and exactly when it
  is in the creation-time dictionary.
\<close>

theorem C10_mismas_claves:
  "\<exists>s. ejecutar_ops ops (memoria_nueva t) = Inr s \<and>
       claves (mt_almacen s) = claves (mt_timestamp_acceso s) \<and>
       claves (mt_almacen s) = claves (mt_timestamp_creacion s)"
  using ejecutar_ops_ok[OF coherente_nueva, of ops t]
  by (auto simp: mt_coherente_def)








section \<open>Properties of plan validation and optimisation\<close>

lemma validar_plan_iff:
  "fst (validar_plan p) \<longleftrightarrow>
     tareas_de p \<noteq> [] \<and> \<not> hay_ciclos (aristas p) \<and>
     set (herramientas_plan p) \<subseteq> set herramientas_disponibles"
  by (auto simp: validar_plan_def reglas_validacion_def validar_minimo_tareas_def
      validar_dependencias_ciclicas_def validar_recursos_disponibles_def Let_def filter_empty_conv)

lemma tareas_sin_colgantes:
  "tareas_de (sin_colgantes p) =
     map (\<lambda>t. t\<lparr>t_dependencias := filter (\<lambda>d. d \<in> set (ids_plan p)) (t_dependencias t)\<rparr>)
       (tareas_de p)"
  by (simp add: tareas_de_def sin_colgantes_def split: option.splits)

lemma herramientas_sin_colgantes: "herramientas_plan (sin_colgantes p) = herramientas_plan p"
  by (simp add: herramientas_plan_def tareas_sin_colgantes comp_def)

lemma aristas_sin_colgantes:
  "aristas (sin_colgantes p) = filter (\<lambda>(a, b). a \<in> set (ids_plan p)) (aristas p)"
proof -
  have "aristas_tarea (t\<lparr>t_dependencias := filter P (t_dependencias t)\<rparr>) =
        filter (\<lambda>(a, b). P a) (aristas_tarea t)" for t :: tarea and P
    by (simp add: aristas_tarea_def filter_map comp_def split: option.splits)
  then show ?thesis
    by (simp add: aristas_def tareas_sin_colgantes comp_def filter_concat)
qed

lemma destinos_son_ids: "(a, b) \<in> set (aristas p) \<Longrightarrow> b \<in> set (ids_plan p)"
  by (auto simp: aristas_def aristas_tarea_def ids_plan_def split: option.splits if_splits)

lemma trancl_filtrado:
  assumes "(x, y) \<in> E\<^sup>+" and "x \<in> I" and "\<And>a b. (a, b) \<in> E \<Longrightarrow> b \<in> I"
  shows "(x, y) \<in> {(a, b). (a, b) \<in> E \<and> a \<in> I}\<^sup>+ \<and> y \<in> I"
  using assms(1)
proof (induction rule: trancl_induct)
  case (base y)
  with assms(2,3) show ?case by auto
next
  case (step y z)
  then have "(y, z) \<in> {(a, b). (a, b) \<in> E \<and> a \<in> I}" by simp
  with step assms(3) show ?case by (meson trancl.trancl_into_trancl)
qed

lemma hay_ciclos_filtrado:
  assumes "\<And>a b. (a, b) \<in> set es \<Longrightarrow> b \<in> I"
  shows "hay_ciclos (filter (\<lambda>(a, b). a \<in> I) es) = hay_ciclos es"
proof
  let ?F = "set (filter (\<lambda>(a, b). a \<in> I) es)"
  assume "hay_ciclos (filter (\<lambda>(a, b). a \<in> I) es)"
  then obtain n where n: "(n, n) \<in> ?F\<^sup>+" by (auto simp: hay_ciclos_def)
  have "?F \<subseteq> set es" by auto
  then have "(n, n) \<in> (set es)\<^sup>+" using n by (meson trancl_mono)
  moreover from this have "n \<in> fst ` set es"
    by (metis Domain.DomainI Domain_fst trancl_domain)
  ultimately show "hay_ciclos es" by (auto simp: hay_ciclos_def)
next
  let ?F = "set (filter (\<lambda>(a, b). a \<in> I) es)"
  assume "hay_ciclos es"
  then obtain n where n: "(n, n) \<in> (set es)\<^sup>+" by (auto simp: hay_ciclos_def)
  then have "n \<in> Range (set es)" by (metis Range.intros trancl_range)
  then have nI: "n \<in> I" using assms by auto
  have F: "?F = {(a, b). (a, b) \<in> set es \<and> a \<in> I}" by auto
  from trancl_filtrado[OF n nI assms] have "(n, n) \<in> ?F\<^sup>+" unfolding F by simp
  moreover from this have "n \<in> fst ` ?F"
    by (metis Domain.DomainI Domain_fst trancl_domain)
  ultimately show "hay_ciclos (filter (\<lambda>(a, b). a \<in> I) es)"
    unfolding hay_ciclos_def by (metis image_set)
qed

text \<open>
  C6 (as stated).  The claim fails: the plan with the single task \<open>T1\<close>, which depends
  on \<open>fantasma\<close>, an id of no task, is reported valid with no error.
\<close>

theorem C6_counterexample:
  "''fantasma'' \<in> set (concat (map t_dependencias (tareas_de plan_colgante))) \<and>
   ''fantasma'' \<notin> set (ids_plan plan_colgante) \<and>
   validar_plan plan_colgante = (True, [])"
  by code_simp

text \<open>
  C6 (amended).  The enforced rules are three: the plan has a task, the dependency edges
  have no cycle, and every named tool is one of the three available.  A dependency that
  is the id of no task is not checked: dropping all such dependencies from a plan never
  changes the verdict.
\<close>

theorem C6_referencias_colgantes_ignoradas:
  "fst (validar_plan (sin_colgantes p)) = fst (validar_plan p) \<and>
   (fst (validar_plan p) \<longleftrightarrow>
      tareas_de p \<noteq> [] \<and> \<not> hay_ciclos (aristas p) \<and>
      set (herramientas_plan p) \<subseteq> set herramientas_disponibles)"
proof -
  have "hay_ciclos (aristas (sin_colgantes p)) = hay_ciclos (aristas p)"
    unfolding aristas_sin_colgantes by (rule hay_ciclos_filtrado) (rule destinos_son_ids)
  moreover have "tareas_de (sin_colgantes p) = [] \<longleftrightarrow> tareas_de p = []"
    by (simp add: tareas_sin_colgantes)
  ultimately show ?thesis
    by (simp add: validar_plan_iff herramientas_sin_colgantes)
qed

text \<open>
  C7.  The optimisation step fails the claim on an acyclic plan whose tasks are already
  in dependency order: for \<open>T1\<close>, \<open>T2\<close>, \<open>T3\<close> (after \<open>T1\<close> and \<open>T2\<close>), \<open>T4\<close> (after \<open>T3\<close>)
  the sort by number of dependencies returns \<open>T1, T2, T4, T3\<close>, with \<open>T4\<close> before the
  task it depends on.
\<close>

theorem C7_orden_no_topologico:
  "\<not> hay_ciclos (aristas plan_cuatro) \<and> dependencias_antes (tareas_de plan_cuatro) \<and>
   (case optimizar_plan plan_cuatro of
      Inl e \<Rightarrow> False
    | Inr p \<Rightarrow>
        map t_id (tareas_de p) = [Some ''T1'', Some ''T2'', Some ''T4'', Some ''T3''] \<and>
        \<not> dependencias_antes (tareas_de p))"
  by code_simp

section \<open>Properties of the orchestrator\<close>

lemma entonces_Inr_iff: "entonces m f = Inr y \<longleftrightarrow> (\<exists>x. m = Inr x \<and> f x = Inr y)"
  by (cases m) (auto simp: entonces_def)

lemma entonces_simps [simp]: "entonces (Inl e) f = Inl e" "entonces (Inr x) f = f x"
  by (simp_all add: entonces_def)

text \<open>
  The execution phase, when it returns: the engine was called once on every task of the
  plan, in list order, the results are the engine's, in the same order, and every
  critical task succeeded.  No ratio of successes is computed.
\<close>

lemma ejecutar_tareas_Inr:
  "ejecutar_tareas c sid ts acc = Inr rs \<Longrightarrow>
   \<exists>nuevos. rs = acc @ nuevos \<and> map (met_ejecutar_tarea c) ts = map Inr nuevos \<and>
            criticas_exitosas ts nuevos"
proof (induction ts arbitrary: acc)
  case Nil
  then show ?case by (simp add: criticas_exitosas_def)
next
  case (Cons t ts)
  from Cons.prems obtain r i where r: "met_ejecutar_tarea c t = Inr r"
    and nocrit: "\<not> (\<not> exito_de r \<and> t_critica t)"
    and rest: "ejecutar_tareas c sid ts (acc @ [r]) = Inr rs"
    by (auto simp: entonces_Inr_iff split: if_splits)
  from Cons.IH[OF rest] obtain nuevos where n: "rs = (acc @ [r]) @ nuevos"
    "map (met_ejecutar_tarea c) ts = map Inr nuevos" "criticas_exitosas ts nuevos" by auto
  have "criticas_exitosas (t # ts) (r # nuevos)"
    using n(3) nocrit by (auto simp: criticas_exitosas_def)
  with n(1,2) r show ?case by (intro exI[of _ "r # nuevos"]) simp
qed

lemma fase_ejecucion_Inr:
  "fase_ejecucion c plan sid = Inr rs \<Longrightarrow>
   map (met_ejecutar_tarea c) (tareas_de plan) = map Inr rs \<and>
   criticas_exitosas (tareas_de plan) rs"
  using ejecutar_tareas_Inr[of c sid "tareas_de plan" "[]" rs] by (simp add: fase_ejecucion_def)

text \<open>A critical task whose result is not a success ends the phase with an exception.\<close>

lemma ejecutar_tareas_critica_fallida:
  assumes "met_ejecutar_tarea c t = Inr r" and "\<not> exito_de r" and "t_critica t"
    and "t_id t = Some i" and "sm3_guardar_contexto c sid (''resultado_'' @ i) = Inr ()"
  shows "ejecutar_tareas c sid (t # ts) acc =
           Inl (PyError ''Exception'' (''Tarea critica fallida: '' @ i))"
  using assms by simp

text \<open>
  The collection phase never returns: when the session's context has been read, the
  episode dictionary is built, and its entry \<^verbatim>\<open>'metricas'\<close> calls the missing method.
\<close>

lemma fase_recoleccion_Inl:
  "\<exists>e. fase_recoleccion c objetivo plan resultados session_id = Inl e"
  by (cases "sm3_obtener_contexto_completo c session_id")
     (simp_all add: fase_recoleccion_def calcular_metricas_episodio_def)

lemma cuerpo_Inl:
  "\<exists>e. entonces (fase_planificacion c objetivo contexto s) (\<lambda>plan.
          entonces (fase_ejecucion c plan s) (\<lambda>resultados.
          entonces (fase_recoleccion c objetivo plan resultados s) (\<lambda>episodio_id.
          Inr (f plan resultados episodio_id)))) = (Inl e :: py_error + respuesta)"
proof (cases "fase_planificacion c objetivo contexto s")
  case (Inl e)
  then show ?thesis by simp
next
  case p: (Inr plan)
  show ?thesis
  proof (cases "fase_ejecucion c plan s")
    case (Inl e)
    with p show ?thesis by simp
  next
    case r: (Inr resultados)
    from fase_recoleccion_Inl[of c objetivo plan resultados s]
    obtain e where "fase_recoleccion c objetivo plan resultados s = Inl e" by blast
    with p r show ?thesis by simp
  qed
qed

text \<open>
  The example, up to the point where it stops: planning and execution succeed, the
  only task has failed (a success ratio of 0), and the collection phase raises.
\<close>

lemma ejemplo_fases:
  "fase_planificacion colaboradores_ejemplo ''objetivo'' [] ''s1'' = Inr plan_una_tarea \<and>
   fase_ejecucion colaboradores_ejemplo plan_una_tarea ''s1'' = Inr [resultado_fallido] \<and>
   fase_recoleccion colaboradores_ejemplo ''objetivo'' plan_una_tarea [resultado_fallido] ''s1'' =
     Inl (atributo_ausente ''NucleoSAAM'' ''_calcular_metricas_episodio'')"
  by (simp add: colaboradores_ejemplo_def fase_planificacion_def fase_ejecucion_def
      fase_recoleccion_def calcular_metricas_episodio_def plan_una_tarea_def tareas_de_def
      tarea_simple_def exito_de_def resultado_fallido_def)

lemma procesar_objetivo_Inl:
  "procesar_objetivo c objetivo contexto_usuario session_id =
     Inl (atributo_ausente ''NucleoSAAM''
            (if session_id = None \<or> session_id = Some [] then ''_generar_session_id''
             else ''_registrar_error''))"
proof (cases "session_id = None \<or> session_id = Some []")
  case True
  then show ?thesis by (auto simp: procesar_objetivo_def generar_session_id_def)
next
  case False
  then obtain s where s: "session_id = Some s" "s \<noteq> []" by (cases session_id) auto
  from cuerpo_Inl[of c objetivo contexto_usuario s
      "\<lambda>plan resultados episodio_id. \<lparr>resp_session_id = s, resp_estado = ''completado'',
         resp_resultados = resultados, resp_episodio_id = episodio_id,
         resp_timestamp = ahora_iso c\<rparr>"]
  obtain e where "entonces (fase_planificacion c objetivo contexto_usuario s) (\<lambda>plan.
          entonces (fase_ejecucion c plan s) (\<lambda>resultados.
          entonces (fase_recoleccion c objetivo plan resultados s) (\<lambda>episodio_id.
          Inr \<lparr>resp_session_id = s, resp_estado = ''completado'',
               resp_resultados = resultados, resp_episodio_id = episodio_id,
               resp_timestamp = ahora_iso c\<rparr>))) = Inl e" by blast
  with s show ?thesis by (simp add: procesar_objetivo_def registrar_error_def)
qed

text \<open>
  C4.  The entry point never returns a state.  Whatever the collaborators answer, for
  every goal, context and session id, the call ends with \<^verbatim>\<open>AttributeError\<close>: without a
  session id (\<^verbatim>\<open>None\<close> or the empty string) for \<^verbatim>\<open>_generar_session_id\<close>, before any
  phase runs; with a session id for \<^verbatim>\<open>_registrar_error\<close>, since the body of the \<^verbatim>\<open>try\<close>
  always raises (at the latest in the collection phase, for
  \<^verbatim>\<open>_calcular_metricas_episodio\<close>) and the handler calls the missing method before it
  re-raises.  In the example, with the session id \<open>s1\<close>, planning gives the plan of one
  task, the execution phase returns the failed result of that task (no critical task
  failed; the success ratio is 0), and the collection phase raises.
\<close>

theorem C4_sin_estado_devuelto:
  "procesar_objetivo c objetivo contexto_usuario session_id =
     Inl (atributo_ausente ''NucleoSAAM''
            (if session_id = None \<or> session_id = Some [] then ''_generar_session_id''
             else ''_registrar_error'')) \<and>
   fase_planificacion colaboradores_ejemplo ''objetivo'' [] ''s1'' = Inr plan_una_tarea \<and>
   fase_ejecucion colaboradores_ejemplo plan_una_tarea ''s1'' = Inr [resultado_fallido] \<and>
   fase_recoleccion colaboradores_ejemplo ''objetivo'' plan_una_tarea [resultado_fallido] ''s1'' =
     Inl (atributo_ausente ''NucleoSAAM'' ''_calcular_metricas_episodio'') \<and>
   procesar_objetivo colaboradores_ejemplo ''objetivo'' [] (Some ''s1'') =
     Inl (atributo_ausente ''NucleoSAAM'' ''_registrar_error'')"
  using procesar_objetivo_Inl[of c objetivo contexto_usuario session_id]
    procesar_objetivo_Inl[of colaboradores_ejemplo "''objetivo''" "[]" "Some ''s1''"]
    ejemplo_fases
  by simp

section \<open>Properties of the execution engine\<close>

lemmas met_defs = intentar_def validar_tarea_def seleccionar_herramienta_def
  ejecutar_con_timeout_def procesar_resultado_def max_reintentos_de_def reintento_actual_de_def
  registrar_fallo_tarea_def entorno_met_ejemplo_def herramienta_inestable_def
  estado_met_inicial_def contexto_sesion_def tarea_simple_def globales_met_def

text \<open>
  With the module as it is, every error of an attempt that still has retries left ends
  in \<^verbatim>\<open>NameError\<close>; an error becomes a returned result only when the retry counter of
  the context has reached the budget.
\<close>

lemma manejar_error_sin_random:
  assumes "''random'' \<notin> set (em_globales env)"
    and "reintento_actual_de ctx < max_reintentos_de env tarea"
  shows "manejar_error env e tarea (Some ctx) st =
           (Inl (PyError ''NameError'' ''name random is not defined''), st)"
  using assms by (simp add: manejar_error.simps)

lemma ejecutar_tarea_sin_random:
  assumes "''random'' \<notin> set (em_globales env)"
    and "reintento_actual_de ctx < max_reintentos_de env tarea"
    and "intentar env tarea st = (Inl e, st1)"
  shows "ejecutar_tarea env tarea (Some ctx) st =
           (Inl (PyError ''NameError'' ''name random is not defined''), st1)"
  using assms by (simp add: ejecutar_tarea.simps manejar_error_sin_random)

lemma ejecutar_tarea_reintentos_agotados:
  assumes "max_reintentos_de env tarea \<le> reintento_actual_de ctx"
    and "intentar env tarea st = (Inl e, st1)"
  shows "ejecutar_tarea env tarea (Some ctx) st =
           (Inr \<lparr>r_exito = Some False, r_resultado = None, r_error = Some (err_mensaje e),
                 r_tipo_error = Some (err_tipo e), r_reintentos = Some (reintento_actual_de ctx)\<rparr>,
            registrar_fallo_tarea st1)"
  using assms by (simp add: ejecutar_tarea.simps manejar_error.simps)

text \<open>
  The loop of \<open>MotorEjecucion\<close> is written to allow the whole budget: were its two
  helpers defined, every error recoverable, and the tool failing exactly \<open>maxr - ra\<close>
  more times before it succeeds, the loop would return the successful result after that
  many retries.  The result has no \<^verbatim>\<open>reintentos\<close> key.
\<close>

lemma bucle_motor_reintenta:
  assumes rec: "\<And>m. mo_es_error_recuperable env m = Inr True"
    and man: "\<And>n m. mo_manejar_reintento env n m = Inr ()"
    and falla: "\<And>i. i < maxr - ra \<Longrightarrow> \<exists>e. h (c + i) = Inl e"
    and ok: "h (c + (maxr - ra)) = Inr v"
    and le: "ra \<le> maxr"
  shows "bucle_reintentos_motor env h maxr ra c =
           (Inr \<lparr>r_exito = Some True, r_resultado = Some v, r_error = None,
                 r_tipo_error = None, r_reintentos = None\<rparr>, c + (maxr - ra) + 1)"
  using falla ok le
proof (induction "maxr - ra" arbitrary: ra c)
  case 0
  then have "ra = maxr" by simp
  with 0 show ?case
    by (subst bucle_reintentos_motor.simps) (simp add: ejecutar_simple_def exito_de_def)
next
  case (Suc k)
  then have lt: "ra < maxr" by simp
  from Suc.prems(1)[of 0] lt obtain e where e: "h c = Inl e" by auto
  have k: "k = maxr - (ra + 1)" using Suc.hyps(2) by simp
  have f: "\<And>i. i < maxr - (ra + 1) \<Longrightarrow> \<exists>e. h (c + 1 + i) = Inl e"
  proof -
    fix i assume "i < maxr - (ra + 1)"
    then have "Suc i < maxr - ra" by simp
    from Suc.prems(1)[OF this] show "\<exists>e. h (c + 1 + i) = Inl e" by simp
  qed
  have o: "h (c + 1 + (maxr - (ra + 1))) = Inr v"
    using Suc.prems(2) lt by (simp add: Suc_diff_Suc)
  have IH: "bucle_reintentos_motor env h maxr (ra + 1) (c + 1) =
           (Inr \<lparr>r_exito = Some True, r_resultado = Some v, r_error = None,
                 r_tipo_error = None, r_reintentos = None\<rparr>, c + 1 + (maxr - (ra + 1)) + 1)"
    using Suc.hyps(1)[OF k f o] lt by simp
  show ?case
    apply (subst bucle_reintentos_motor.simps)
    using lt e IH
    by (simp add: ejecutar_simple_def exito_de_def rama_fallo_def rec man Suc_diff_Suc)
qed

text \<open>
  C1.  Exceptions do escape \<open>ejecutar_tarea\<close>.  For a well-formed task whose tool raises
  \<^verbatim>\<open>ConnectionError\<close>: called without a context (the parameter's default), the handler
  raises \<^verbatim>\<open>AttributeError\<close>; called with the context the orchestrator passes, the
  handler raises \<^verbatim>\<open>NameError\<close> on its way to the first retry.
\<close>

theorem C1_excepcion_escapa:
  "fst (ejecutar_tarea (entorno_met_ejemplo globales_met 1) (tarea_simple ''T1'' []) None
          estado_met_inicial) =
     Inl (PyError ''AttributeError'' ''NoneType object has no attribute get'') \<and>
   fst (ejecutar_tarea (entorno_met_ejemplo globales_met 1) (tarea_simple ''T1'' [])
          (Some contexto_sesion) estado_met_inicial) =
     Inl (PyError ''NameError'' ''name random is not defined'')"
  by (simp add: ejecutar_tarea.simps manejar_error.simps met_defs Let_def)

text \<open>
  C5.  With the default budget of 3 retries and a tool that fails three times and then
  succeeds, the engine raises \<^verbatim>\<open>NameError\<close> after the first failure: the tool is called
  once and nothing is slept.  Were \<^verbatim>\<open>random\<close> bound in the module, the fourth call
  would succeed after delays 1.5, 2.5 and 4.5, and the value returned would be
  \<^verbatim>\<open>{'resultado': 'ok'}\<close>, a dictionary with no \<^verbatim>\<open>exito\<close> and no \<^verbatim>\<open>reintentos\<close>, while
  \<^verbatim>\<open>tareas_fallidas\<close> has been counted up three times.
\<close>

theorem C5_reintentos_no_alcanzados:
  "ejecutar_tarea (entorno_met_ejemplo globales_met 3) (tarea_simple ''T1'' [])
     (Some contexto_sesion) estado_met_inicial =
     (Inl (PyError ''NameError'' ''name random is not defined''),
      \<lparr>em_llamadas = 1, em_esperas = [], em_tareas_completadas = 0, em_tareas_fallidas = 0\<rparr>) \<and>
   ejecutar_tarea (entorno_met_ejemplo (''random'' # globales_met) 3) (tarea_simple ''T1'' [])
     (Some contexto_sesion) estado_met_inicial =
     (Inr \<lparr>r_exito = None, r_resultado = Some ''ok'', r_error = None, r_tipo_error = None,
           r_reintentos = None\<rparr>,
      \<lparr>em_llamadas = 4, em_esperas = [3 / 2, 5 / 2, 9 / 2], em_tareas_completadas = 1,
        em_tareas_fallidas = 3\<rparr>)"
  by (simp add: ejecutar_tarea.simps manejar_error.simps met_defs Let_def)

section \<open>Properties of error classification and retries\<close>

text \<open>
  What the pattern table gives for the message "rate limit exceeded", and the strategy
  for that classification: a unit delay of 1 second and the exponent base 2.
\<close>

lemma clasificacion_rate_limit:
  "clasificacion_por_patron patrones_error (lower (err_mensaje error_rate_limit))
     (clasificacion_por_tipo (err_tipo error_rate_limit)) =
   \<lparr>cl_tipo = ''rate_limiting'', cl_categoria = ''recursos'', cl_recuperable = True,
    cl_accion_recomendada = ''reintentar_con_backoff_exponencial'', cl_confianza = 8 / 10\<rparr>"
  by (simp add: error_rate_limit_def patrones_error_def lower_def lower_char_def
      clasificacion_por_tipo_def re_search_def)

lemma estrategia_rate_limit:
  "cl_accion_recomendada cl = ''reintentar_con_backoff_exponencial'' \<Longrightarrow>
   obtener_estrategia_reintento cl =
     \<lparr>es_delay = 1, es_max_reintentos = 7, es_backoff = ''exponencial'', es_base = Some 2\<rparr>"
  by (simp add: obtener_estrategia_reintento_def)

text \<open>
  \<open>MecanismoReintentos\<close>, which no class of the repository calls, run on its own with
  that strategy: the delays are \<open>1 * 2 ^ 1\<close> and \<open>1 * 2 ^ 2\<close> seconds, attempts being
  counted from 1, with no jitter, and the result returned is the function's.  With the
  mechanism's default strategy (a unit delay of 2 seconds) the first two delays are 4
  and 8 seconds.
\<close>

lemma mecanismo_rate_limit:
  "ejecutar_con_reintentos funcion_rate_limit
     (Some \<lparr>es_delay = 1, es_max_reintentos = 7, es_backoff = ''exponencial'', es_base = Some 2\<rparr>)
     \<lparr>er_llamadas = 0, er_esperas = []\<rparr> =
   (Inr resultado_exitoso, \<lparr>er_llamadas = 3, er_esperas = [2, 4]\<rparr>)"
  by (simp add: calcular_delay_def ejecutar_con_reintentos_def bucle_reintentos.simps
      manejar_excepcion_def manejar_fallo_def funcion_rate_limit_def exito_de_def
      resultado_exitoso_def Let_def)

lemma delays_estrategia_default:
  "calcular_delay 1 estrategia_default = 4 \<and> calcular_delay 2 estrategia_default = 8"
  by (simp add: calcular_delay_def estrategia_default_def)

text \<open>\<open>clasificar_error\<close> raises for every error.\<close>

lemma clasificar_error_Inl:
  "clasificar_error error = Inl (atributo_ausente ''GestorErrores'' ''_actualizar_estadisticas'')"
  by (simp add: clasificar_error_def actualizar_estadisticas_def Let_def)

text \<open>
  C8.  The task does not complete.  For a task whose tool raises "rate limit exceeded"
  twice and then succeeds, with the default budget of 3 retries:

    \<^item> the execution engine that the orchestrator calls raises \<^verbatim>\<open>NameError\<close> after the
      first call of the tool: no delay is slept, no retry is made and no result is
      returned;

    \<^item> were \<^verbatim>\<open>random\<close> bound in the module, the engine would sleep \<open>2 ^ 0\<close> and \<open>2 ^ 1\<close>
      seconds plus the jitter (here 0.5), not 2 and 4 seconds, and return
      \<^verbatim>\<open>{'resultado': 'datos'}\<close>, with no \<^verbatim>\<open>exito\<close>, no \<^verbatim>\<open>reintentos\<close> and no classification,
      after counting two failed tasks;

    \<^item> the retry loop of \<open>MotorEjecucion\<close> raises \<^verbatim>\<open>AttributeError\<close> after the first call
      of the tool;

    \<^item> the classification of the error raises \<^verbatim>\<open>AttributeError\<close>.
\<close>

theorem C8_rate_limit_no_completa:
  "ejecutar_tarea (entorno_met_rate_limit globales_met) (tarea_simple ''T1'' [])
     (Some contexto_sesion) estado_met_inicial =
     (Inl (PyError ''NameError'' ''name random is not defined''),
      \<lparr>em_llamadas = 1, em_esperas = [], em_tareas_completadas = 0, em_tareas_fallidas = 0\<rparr>) \<and>
   ejecutar_tarea (entorno_met_rate_limit (''random'' # globales_met)) (tarea_simple ''T1'' [])
     (Some contexto_sesion) estado_met_inicial =
     (Inr \<lparr>r_exito = None, r_resultado = Some ''datos'', r_error = None, r_tipo_error = None,
           r_reintentos = None\<rparr>,
      \<lparr>em_llamadas = 3, em_esperas = [3 / 2, 5 / 2], em_tareas_completadas = 1,
        em_tareas_fallidas = 2\<rparr>) \<and>
   ejecutar_con_reintentos_motor entorno_motor_ejemplo herramienta_rate_limit
     (tarea_simple ''T1'' []) 0 =
     (Inl (atributo_ausente ''MotorEjecucion'' ''_es_error_recuperable''), 1) \<and>
   clasificar_error error_rate_limit =
     Inl (atributo_ausente ''GestorErrores'' ''_actualizar_estadisticas'')"
  by (simp add: ejecutar_tarea.simps manejar_error.simps intentar_def validar_tarea_def
      seleccionar_herramienta_def ejecutar_con_timeout_def procesar_resultado_def
      max_reintentos_de_def reintento_actual_de_def registrar_fallo_tarea_def
      entorno_met_rate_limit_def herramienta_rate_limit_def error_rate_limit_def
      estado_met_inicial_def contexto_sesion_def tarea_simple_def globales_met_def
      ejecutar_con_reintentos_motor_def bucle_reintentos_motor.simps max_reintentos_motor_def
      ejecutar_simple_def exito_de_def rama_fallo_def rama_except_def entorno_motor_ejemplo_def
      clasificar_error_def actualizar_estadisticas_def Let_def)

section \<open>Properties of the episodic log\<close>

lemma length_hexdigest: "length (hexdigest w) = 64"
  by (simp add: hexdigest_def)

lemma checksum_corto_invalido:
  "length (o_bien (ep_checksum_integridad e) []) \<noteq> 64 \<Longrightarrow> \<not> validar_checksum sha256 e"
  using length_hexdigest[of "sha256 (contenido_checksum e)"]
  by (auto simp: validar_checksum_def calcular_checksum_def)

text \<open>
  The schema and the validator hash different texts whenever the system version is not
  empty.
\<close>

lemma contenido_esquema_distinto:
  "ep_version_sistema e = Some v \<Longrightarrow> v \<noteq> [] \<Longrightarrow>
   contenido_checksum_esquema e \<noteq> contenido_checksum e"
  by (simp add: contenido_checksum_esquema_def contenido_checksum_def o_bien_def)

text \<open>
  C2.  \<open>guardar_episodio\<close> neither computes nor verifies the checksum: it stores the
  value it is given, and the empty string when the key is absent.  A complete episode
  without the key is stored with the empty checksum, and one with the checksum \<open>abc\<close>
  is stored with \<open>abc\<close>; read back, neither passes \<open>_validar_checksum\<close>, whatever the
  hash function, since a digest has 64 digits.
\<close>

theorem C2_checksum_no_calculado:
  "(case guardar_episodio ''episodio_generado'' (episodio_ejemplo None) [] of
      (Inr episodio_id, tabla) \<Rightarrow>
        (case obtener_episodio episodio_id tabla of
           None \<Rightarrow> False
         | Some almacenado \<Rightarrow>
             ep_checksum_integridad almacenado = Some [] \<and> \<not> validar_checksum sha256 almacenado)
    | (Inl e, tabla) \<Rightarrow> False) \<and>
   (case guardar_episodio ''episodio_generado'' (episodio_ejemplo (Some ''abc'')) [] of
      (Inr episodio_id, tabla) \<Rightarrow>
        (case obtener_episodio episodio_id tabla of
           None \<Rightarrow> False
         | Some almacenado \<Rightarrow>
             ep_checksum_integridad almacenado = Some ''abc'' \<and> \<not> validar_checksum sha256 almacenado)
    | (Inl e, tabla) \<Rightarrow> False)"
  by (simp add: guardar_episodio_def episodio_ejemplo_def o_bien_def obtener_episodio_def
      db_a_dict_def checksum_corto_invalido Let_def)

section \<open>Properties of the skill metrics\<close>

text \<open>The double nearest to \<open>0.3\<close>.\<close>

lemma redondear_0_3: "redondear (3 / 10) = 5404319552844595 / 18014398509481984"
  by (simp add: redondear_def cuanto_def cuanto_abajo.simps redondeo_par_def Let_def)

lemma tasa_paso_exacto:
  "tasa_de (calcular_nuevas_metricas exacta (Some a) m \<lparr>rh_exito = Some True, rh_duracion = d\<rparr>) =
     a + (1 - a) * tasa_de m"
  by (simp add: calcular_nuevas_metricas_def exacta_def tasa_de_def Let_def split: option.splits)

lemma paso_exacto_acotado:
  fixes a t :: real
  assumes "0 \<le> a" "a \<le> 1" "0 \<le> t" "t \<le> 1"
  shows "t \<le> a + (1 - a) * t" and "a + (1 - a) * t \<le> 1"
proof -
  have "0 \<le> a * (1 - t)" using assms by simp
  then show "t \<le> a + (1 - a) * t" by (simp add: algebra_simps)
  have "0 \<le> (1 - a) * (1 - t)" using assms by simp
  then show "a + (1 - a) * t \<le> 1" by (simp add: algebra_simps)
qed

lemma usos_exitosos_acotado:
  assumes "0 \<le> a" "a \<le> 1" "0 \<le> tasa_de m" "tasa_de m \<le> 1"
  shows "tasa_de m \<le> tasa_de (usos_exitosos exacta (Some a) ds m) \<and>
         tasa_de (usos_exitosos exacta (Some a) ds m) \<le> 1"
  using assms(3,4)
proof (induction ds arbitrary: m)
  case Nil
  then show ?case by simp
next
  case (Cons d ds)
  let ?m1 = "calcular_nuevas_metricas exacta (Some a) m \<lparr>rh_exito = Some True, rh_duracion = d\<rparr>"
  have s: "tasa_de m \<le> tasa_de ?m1" "tasa_de ?m1 \<le> 1"
    using paso_exacto_acotado[OF assms(1,2) Cons.prems] by (simp_all add: tasa_paso_exacto)
  from s(1) Cons.prems(1) have "0 \<le> tasa_de ?m1" by simp
  from Cons.IH[OF this s(2)] s(1) show ?case by simp
qed

lemma usos_exitosos_append:
  "usos_exitosos ar alpha (xs @ ys) m = usos_exitosos ar alpha ys (usos_exitosos ar alpha xs m)"
  by (induction xs arbitrary: m) simp_all

text \<open>
  Rounding in the unit interval.  Rounding to an integer moves a number by at most one
  half; the spacing of the doubles below 1 is a power of two, at most \<open>2 ^ (-53)\<close>.
\<close>

lemma redondeo_par_error: "\<bar>of_int (redondeo_par z) - z\<bar> \<le> 1 / 2"
proof -
  have "of_int \<lfloor>z\<rfloor> \<le> z" "z < of_int \<lfloor>z\<rfloor> + 1" by linarith+
  then show ?thesis unfolding redondeo_par_def Let_def by (auto simp: abs_le_iff)
qed

lemma redondeo_par_nonneg: "0 \<le> z \<Longrightarrow> 0 \<le> redondeo_par z"
  unfolding redondeo_par_def Let_def by (auto simp: add_nonneg_nonneg)

lemma redondeo_par_le_int:
  assumes "z \<le> of_int N"
  shows "redondeo_par z \<le> N"
proof (cases "z = of_int N")
  case True
  then show ?thesis by (simp add: redondeo_par_def)
next
  case False
  with assms have "z < of_int N" by simp
  then have "\<lfloor>z\<rfloor> < N" by (simp add: floor_less_iff)
  then show ?thesis unfolding redondeo_par_def Let_def by auto
qed

lemma cuanto_abajo_potencia:
  "\<exists>k\<ge>j. cuanto_abajo n (1 / 2 ^ j) x = 1 / 2 ^ (k + 52)"
proof (induction n arbitrary: j)
  case 0
  show ?case by (rule exI[of _ j]) (simp add: cuanto_abajo.simps power_add)
next
  case (Suc n)
  show ?case
  proof (cases "1 / 2 ^ j \<le> x")
    case True
    then show ?thesis by (intro exI[of _ j]) (simp add: cuanto_abajo.simps[of "Suc n"] power_add)
  next
    case False
    from Suc.IH[of "Suc j"] obtain k where "k \<ge> Suc j"
      "cuanto_abajo n (1 / 2 ^ Suc j) x = 1 / 2 ^ (k + 52)" by auto
    with False show ?thesis
      by (intro exI[of _ k]) (simp add: cuanto_abajo.simps[of "Suc n"] mult.commute)
  qed
qed

lemma cuanto_arriba_positivo: "0 < p \<Longrightarrow> 0 < cuanto_arriba n p x"
proof (induction n arbitrary: p)
  case 0
  then show ?case by (simp add: cuanto_arriba.simps)
next
  case (Suc n)
  from Suc.IH[of "2 * p"] Suc.prems show ?case
    by (simp add: cuanto_arriba.simps[of "Suc n"])
qed

lemma cuanto_menor_que_uno:
  assumes "x < 1"
  shows "\<exists>k\<ge>1. cuanto x = 1 / 2 ^ (k + 52)"
proof -
  have "cuanto x = cuanto_abajo 1021 (1 / 2 ^ 1) x"
    using assms by (simp add: cuanto_def cuanto_abajo.simps[of 1022])
  with cuanto_abajo_potencia[of 1 1021 x] show ?thesis by auto
qed

lemma cuanto_positivo: "0 < cuanto x"
proof (cases "x < 1")
  case True
  from cuanto_menor_que_uno[OF this] show ?thesis by auto
next
  case False
  then show ?thesis by (simp add: cuanto_def cuanto_arriba_positivo)
qed

lemma redondear_nonneg: "0 \<le> x \<Longrightarrow> 0 \<le> redondear x"
  using cuanto_positivo[of "\<bar>x\<bar>"]
  by (auto simp: redondear_def sgn_real_def intro!: mult_nonneg_nonneg redondeo_par_nonneg)

text \<open>Below 1, rounding moves a number by at most \<open>2 ^ (-54)\<close> and never beyond 1.\<close>

lemma redondear_bajo_uno:
  assumes "0 \<le> x" "x < 1"
  shows "\<bar>redondear x - x\<bar> \<le> 1 / 2 ^ 54" and "redondear x \<le> 1"
proof -
  from cuanto_menor_que_uno[of "\<bar>x\<bar>"] assms obtain k where k: "k \<ge> 1"
    and q: "cuanto x = 1 / 2 ^ (k + 52)" by auto
  let ?N = "(2::real) ^ (k + 52)"
  let ?m = "redondeo_par (x * ?N)"
  have rx: "redondear x = of_int ?m / ?N"
    using assms q by (cases "x = 0") (simp_all add: redondear_def redondeo_par_def)
  have "\<bar>of_int ?m - x * ?N\<bar> \<le> 1 / 2" by (rule redondeo_par_error)
  then have "\<bar>of_int ?m / ?N - x\<bar> \<le> (1 / 2) / ?N"
    by (simp add: field_simps abs_le_iff)
  also have "(1 / 2) / ?N = 1 / 2 ^ (k + 53)"
  proof -
    have "(2::real) ^ (k + 53) = 2 ^ (k + 52 + 1)" by simp
    also have "\<dots> = 2 ^ (k + 52) * 2" by (simp only: power_add power_one_right)
    finally show ?thesis by simp
  qed
  also have "\<dots> \<le> 1 / 2 ^ 54"
    using k by (intro divide_left_mono power_increasing) simp_all
  finally show "\<bar>redondear x - x\<bar> \<le> 1 / 2 ^ 54" using rx by simp
  have "x * ?N \<le> of_int (2 ^ (k + 52))" using assms by (simp add: mult_left_le_one_le)
  then have "?m \<le> 2 ^ (k + 52)" by (rule redondeo_par_le_int)
  then have le: "of_int ?m \<le> ?N" by (metis of_int_le_iff of_int_numeral of_int_power)
  have "0 < ?N" by simp
  from divide_le_eq_1_pos[OF this, of "of_int ?m"] le have "of_int ?m / ?N \<le> 1" by blast
  then show "redondear x \<le> 1" unfolding rx .
qed

lemma redondear_uno: "redondear 1 = 1"
  by (simp add: redondear_def cuanto_def cuanto_arriba.simps redondeo_par_def)

lemma redondear_cero: "redondear 0 = 0"
  by (simp add: redondear_def)

text \<open>Between 1 and \<open>1 + 2 ^ (-53)\<close>, the middle of 1 and the next double, rounding gives 1.\<close>

lemma redondear_sobre_uno:
  assumes "1 \<le> x" "x \<le> 1 + 1 / 2 ^ 53"
  shows "redondear x = 1"
proof -
  define N :: real where "N = 2 ^ 52"
  have N: "0 < N" "N = of_int (2 ^ 52)" "\<lfloor>N\<rfloor> = 2 ^ 52" by (simp_all add: N_def)
  have x2: "x < 2" using assms(2) by (simp add: field_simps)
  have q: "cuanto x = 1 / N"
    using assms(1) x2 by (simp add: cuanto_def cuanto_arriba.simps[of 1023] N_def)
  have z: "N \<le> x * N" "x * N \<le> N + 1 / 2"
    using assms by (simp_all add: N_def field_simps)
  then have f: "\<lfloor>x * N\<rfloor> = 2 ^ 52" unfolding N(2) by (intro floor_unique) simp_all
  have e: "even ((2::int) ^ 52)" by simp
  have "redondeo_par (x * N) = 2 ^ 52"
    using z unfolding redondeo_par_def Let_def f N(2)[symmetric] using e by auto
  then have "of_int (redondeo_par (x * N)) = N" unfolding N(2) by simp
  moreover have "redondear x = of_int (redondeo_par (x * N)) * (1 / N)"
    using assms(1) q by (simp add: redondear_def)
  ultimately show ?thesis using N(1) by simp
qed

lemma redondear_unidad:
  assumes "0 \<le> x" "x \<le> 1 + 1 / 2 ^ 53"
  shows "0 \<le> redondear x" "redondear x \<le> 1"
proof -
  show "0 \<le> redondear x" using assms(1) by (rule redondear_nonneg)
  show "redondear x \<le> 1"
  proof (cases "x < 1")
    case True
    with assms(1) show ?thesis by (rule redondear_bajo_uno(2))
  next
    case False
    with assms(2) redondear_sobre_uno[of x] show ?thesis by simp
  qed
qed

lemma redondear_error_unidad:
  assumes "0 \<le> x" "x \<le> 1"
  shows "redondear x \<le> x + 1 / 2 ^ 54"
proof (cases "x < 1")
  case True
  from redondear_bajo_uno(1)[OF assms(1) True] show ?thesis by linarith
next
  case False
  with assms(2) have "x = 1" by simp
  then show ?thesis by (simp add: redondear_uno)
qed

lemma redondear_un_medio: "redondear (1 / 2) = 1 / 2"
  by (simp add: redondear_def cuanto_def cuanto_abajo.simps redondeo_par_def)

lemma tasa_paso_binary64:
  "tasa_de (calcular_nuevas_metricas binary64 (Some a) m \<lparr>rh_exito = Some True, rh_duracion = d\<rparr>) =
     redondear (redondear (a * 1) + redondear (redondear (1 - a) * tasa_de m))"
  by (simp add: calcular_nuevas_metricas_def binary64_def tasa_de_def Let_def redondear_un_medio
      split: option.splits)

text \<open>
  One update in double arithmetic, for a smoothing factor that is a double: the new rate
  is in \<open>[0, 1]\<close>, and it is below the prior by at most three rounding errors.
\<close>

lemma paso_binary64_acotado:
  assumes "0 \<le> a" "a \<le> 1" "redondear a = a" "0 \<le> t" "t \<le> 1"
  shows "0 \<le> redondear (redondear (a * 1) + redondear (redondear (1 - a) * t))"
    and "redondear (redondear (a * 1) + redondear (redondear (1 - a) * t)) \<le> 1"
proof -
  define b where "b = redondear (1 - a)"
  define c where "c = redondear (b * t)"
  have e: "(1::real) / 2 ^ 54 + 1 / 2 ^ 54 = 1 / 2 ^ 53" by simp
  have u: "(1::real) \<le> 1 + 1 / 2 ^ 53" by simp
  have a1: "0 \<le> 1 - a" "1 - a \<le> 1" using assms(1,2) by simp_all
  have b: "0 \<le> b" "b \<le> 1" "b \<le> 1 - a + 1 / 2 ^ 54"
    unfolding b_def
    using redondear_unidad[OF a1(1)] a1(2) u redondear_error_unidad[OF a1] by simp_all
  have bt: "0 \<le> b * t" "b * t \<le> b" "b * t \<le> 1"
    using b(1,2) assms(4,5) by (simp_all add: mult_left_le mult_le_one)
  have c: "0 \<le> c" "c \<le> b * t + 1 / 2 ^ 54"
    unfolding c_def using redondear_nonneg[OF bt(1)] redondear_error_unidad[OF bt(1,3)] by simp_all
  have "a + c \<le> 1 + (1 / 2 ^ 54 + 1 / 2 ^ 54)" using b(3) bt(2) c(2) by linarith
  then have s: "0 \<le> a + c" "a + c \<le> 1 + 1 / 2 ^ 53" using assms(1) c(1) unfolding e by simp_all
  have r: "redondear (redondear (a * 1) + redondear (redondear (1 - a) * t)) = redondear (a + c)"
    by (simp add: assms(3) b_def c_def)
  show "0 \<le> redondear (redondear (a * 1) + redondear (redondear (1 - a) * t))"
    unfolding r using s by (rule redondear_unidad(1))
  show "redondear (redondear (a * 1) + redondear (redondear (1 - a) * t)) \<le> 1"
    unfolding r using s by (rule redondear_unidad(2))
qed

lemma usos_exitosos_binary64_acotado:
  assumes "0 \<le> a" "a \<le> 1" "redondear a = a" "0 \<le> tasa_de m" "tasa_de m \<le> 1"
  shows "0 \<le> tasa_de (usos_exitosos binary64 (Some a) ds m) \<and>
         tasa_de (usos_exitosos binary64 (Some a) ds m) \<le> 1"
  using assms(4,5)
proof (induction ds arbitrary: m)
  case Nil
  then show ?case by simp
next
  case (Cons d ds)
  let ?m1 = "calcular_nuevas_metricas binary64 (Some a) m \<lparr>rh_exito = Some True, rh_duracion = d\<rparr>"
  have "0 \<le> tasa_de ?m1" "tasa_de ?m1 \<le> 1"
    unfolding tasa_paso_binary64
    using paso_binary64_acotado[OF assms(1-3) Cons.prems] by simp_all
  from Cons.IH[OF this] show ?case by simp
qed

lemma redondear_error_inferior:
  assumes "0 \<le> x" "x \<le> 1"
  shows "x - 1 / 2 ^ 54 \<le> redondear x"
proof (cases "x < 1")
  case True
  from redondear_bajo_uno(1)[OF assms(1) True] show ?thesis by linarith
next
  case False
  with assms(2) have "x = 1" by simp
  then show ?thesis by (simp add: redondear_uno)
qed

lemma paso_binary64_casi_monotono:
  assumes "0 \<le> a" "a \<le> 1" "redondear a = a" "0 \<le> t" "t \<le> 1"
  shows "t - 3 / 2 ^ 54 \<le> redondear (redondear (a * 1) + redondear (redondear (1 - a) * t))"
proof -
  define b where "b = redondear (1 - a)"
  define c where "c = redondear (b * t)"
  define eps :: real where "eps = 1 / 2 ^ 54"
  have eps: "0 \<le> eps" "3 / 2 ^ 54 = 3 * eps" "1 / 2 ^ 53 = 2 * eps" by (simp_all add: eps_def)
  have u: "(1::real) \<le> 1 + 1 / 2 ^ 53" by simp
  have a1: "0 \<le> 1 - a" "1 - a \<le> 1" using assms(1,2) by simp_all
  have b: "0 \<le> b" "b \<le> 1" "b \<le> 1 - a + eps" "1 - a - eps \<le> b"
    unfolding b_def eps_def
    using redondear_unidad[OF a1(1)] a1(2) u redondear_error_unidad[OF a1]
      redondear_error_inferior[OF a1] by simp_all
  have bt: "0 \<le> b * t" "b * t \<le> b" "b * t \<le> 1"
    using b(1,2) assms(4,5) by (simp_all add: mult_left_le mult_le_one)
  have c: "0 \<le> c" "c \<le> b * t + eps" "b * t - eps \<le> c"
    unfolding c_def eps_def
    using redondear_nonneg[OF bt(1)] redondear_error_unidad[OF bt(1,3)]
      redondear_error_inferior[OF bt(1,3)] by simp_all
  have "(1 - a - eps) * t \<le> b * t" using b(4) assms(4) by (rule mult_right_mono)
  moreover have "eps * t \<le> eps" using eps(1) assms(5) by (simp add: mult_left_le)
  ultimately have bt_low: "(1 - a) * t - eps \<le> b * t" by (simp add: algebra_simps)
  have "0 \<le> a * (1 - t)" using assms by simp
  then have conv: "t \<le> a + (1 - a) * t" by (simp add: algebra_simps)
  have s: "0 \<le> a + c" "a + c \<le> 1 + 1 / 2 ^ 53"
    using assms(1) c(1,2) b(3) bt(2) unfolding eps(3) by linarith+
  have r: "redondear (redondear (a * 1) + redondear (redondear (1 - a) * t)) = redondear (a + c)"
    by (simp add: assms(3) b_def c_def)
  have "t - 3 * eps \<le> redondear (a + c)"
  proof (cases "a + c < 1")
    case True
    from redondear_error_inferior[OF s(1)] True have "a + c - eps \<le> redondear (a + c)"
      by (simp add: eps_def)
    with c(3) bt_low conv show ?thesis by linarith
  next
    case False
    then have "redondear (a + c) = 1" using s(2) by (intro redondear_sobre_uno) simp_all
    with assms(5) eps(1) show ?thesis by simp
  qed
  then show ?thesis unfolding r eps(2) .
qed

text \<open>Without rounding, the rates of successive uses never decrease.\<close>

lemma tasa_exacta_monotona:
  assumes "0 \<le> a" "a \<le> 1" "0 \<le> tasa_de m" "tasa_de m \<le> 1" "i \<le> j"
  shows "0 \<le> tasa_de (usos_exitosos exacta (Some a) (take i ds) m) \<and>
         tasa_de (usos_exitosos exacta (Some a) (take i ds) m) \<le>
           tasa_de (usos_exitosos exacta (Some a) (take j ds) m) \<and>
         tasa_de (usos_exitosos exacta (Some a) (take j ds) m) \<le> 1"
proof -
  let ?mi = "usos_exitosos exacta (Some a) (take i ds) m"
  from usos_exitosos_acotado[OF assms(1-4), of "take i ds"]
  have mi: "tasa_de m \<le> tasa_de ?mi" "tasa_de ?mi \<le> 1" by simp_all
  with assms(3) have mi0: "0 \<le> tasa_de ?mi" by simp
  have "take j ds = take i ds @ take (j - i) (drop i ds)"
    using assms(5) by (metis le_add_diff_inverse take_add)
  then have "usos_exitosos exacta (Some a) (take j ds) m =
             usos_exitosos exacta (Some a) (take (j - i) (drop i ds)) ?mi"
    by (simp add: usos_exitosos_append)
  with usos_exitosos_acotado[OF assms(1,2) mi0 mi(2), of "take (j - i) (drop i ds)"] mi0
  show ?thesis by simp
qed

text \<open>
  C9 (as stated).  In the arithmetic the code computes with, the claim fails: for the
  smoothing factor \<open>0.3\<close> and the stored rate \<open>0.9999999999999999\<close> (both doubles in
  \<open>[0, 1]\<close>: rounding leaves them as they are), one successful use gives
  \<open>0.9999999999999998\<close>, which is below the stored rate.
\<close>

theorem C9_counterexample:
  "redondear (3 / 10) = 5404319552844595 / 18014398509481984 \<and>
   redondear (9007199254740991 / 9007199254740992) = 9007199254740991 / 9007199254740992 \<and>
   tasa_de (calcular_nuevas_metricas binary64 (Some (5404319552844595 / 18014398509481984))
      \<lparr>m_tasa_exito = Some (9007199254740991 / 9007199254740992), m_tiempo_promedio = None\<rparr>
      \<lparr>rh_exito = Some True, rh_duracion = None\<rparr>)
     < 9007199254740991 / 9007199254740992"
  by (simp add: calcular_nuevas_metricas_def binary64_def tasa_de_def redondear_def cuanto_def
     cuanto_abajo.simps cuanto_arriba.simps redondeo_par_def Let_def)

text \<open>
  C9 (amended).  For a smoothing factor that is a double in \<open>[0, 1]\<close> and a stored rate in
  \<open>[0, 1]\<close>: in the double arithmetic of the code, the rate after any number of
  successful uses is in \<open>[0, 1]\<close>, and one more successful use lowers it by at most
  \<open>3 / 2 ^ 54\<close> (it is non-decreasing up to rounding); computed without rounding, the
  rate after \<open>i\<close> uses is at most the rate after \<open>j \<ge> i\<close> uses.
\<close>

theorem C9_tasa_acotada:
  assumes "0 \<le> a" "a \<le> 1" "redondear a = a" "0 \<le> tasa_de m" "tasa_de m \<le> 1" "i \<le> j"
  shows "0 \<le> tasa_de (usos_exitosos binary64 (Some a) ds m) \<and>
         tasa_de (usos_exitosos binary64 (Some a) ds m) \<le> 1 \<and>
         tasa_de (usos_exitosos binary64 (Some a) ds m) - 3 / 2 ^ 54 \<le>
           tasa_de (usos_exitosos binary64 (Some a) (ds @ [d]) m) \<and>
         tasa_de (usos_exitosos exacta (Some a) (take i ds) m) \<le>
           tasa_de (usos_exitosos exacta (Some a) (take j ds) m)"
proof -
  let ?m = "usos_exitosos binary64 (Some a) ds m"
  from usos_exitosos_binary64_acotado[OF assms(1-5), of ds]
  have r: "0 \<le> tasa_de ?m" "tasa_de ?m \<le> 1" by simp_all
  have "tasa_de ?m - 3 / 2 ^ 54 \<le> tasa_de (usos_exitosos binary64 (Some a) (ds @ [d]) m)"
    using paso_binary64_casi_monotono[OF assms(1-3) r]
    by (simp add: usos_exitosos_append tasa_paso_binary64)
  with r tasa_exacta_monotona[OF assms(1,2,4,5,6), of ds] show ?thesis by simp
qed

theorem C9_tasa_acotada_witness:
  "0 \<le> tasa_de (usos_exitosos binary64 (Some (1 / 4)) [None, None]
            \<lparr>m_tasa_exito = Some (1 / 2), m_tiempo_promedio = None\<rparr>) \<and>
   tasa_de (usos_exitosos binary64 (Some (1 / 4)) [None, None]
            \<lparr>m_tasa_exito = Some (1 / 2), m_tiempo_promedio = None\<rparr>) \<le> 1 \<and>
   tasa_de (usos_exitosos binary64 (Some (1 / 4)) [None, None]
            \<lparr>m_tasa_exito = Some (1 / 2), m_tiempo_promedio = None\<rparr>) - 3 / 2 ^ 54 \<le>
     tasa_de (usos_exitosos binary64 (Some (1 / 4)) ([None, None] @ [None])
            \<lparr>m_tasa_exito = Some (1 / 2), m_tiempo_promedio = None\<rparr>) \<and>
   tasa_de (usos_exitosos exacta (Some (1 / 4)) (take 1 [None, None])
            \<lparr>m_tasa_exito = Some (1 / 2), m_tiempo_promedio = None\<rparr>) \<le>
     tasa_de (usos_exitosos exacta (Some (1 / 4)) (take 2 [None, None])
            \<lparr>m_tasa_exito = Some (1 / 2), m_tiempo_promedio = None\<rparr>)"
proof -
  let ?m = "\<lparr>m_tasa_exito = Some (1 / 2), m_tiempo_promedio = None\<rparr>"
  have h: "(0::real) \<le> 1 / 4" "(1::real) / 4 \<le> 1" "redondear (1 / 4) = 1 / 4"
    "0 \<le> tasa_de ?m" "tasa_de ?m \<le> 1" "(1::nat) \<le> 2"
    by (simp_all add: tasa_de_def redondear_def cuanto_def cuanto_abajo.simps redondeo_par_def)
  from C9_tasa_acotada[OF h, of "[None, None]" None] show ?thesis .
qed

end
